theory Spec2Isabelle
  imports Complex_Main "HOL-Library.Multiset"
begin

section \<open>Data model of the attendance service\<close>

text \<open>
  The records of \<^verbatim>\<open>attendance-service\<close> (interfaces \<^verbatim>\<open>UserData\<close>,
  \<^verbatim>\<open>AttendanceRecord\<close>, \<^verbatim>\<open>AttendanceStatus\<close>). Identifiers, names and e-mail
  addresses are strings. A face descriptor is a list of numbers. An instant is the number
  of milliseconds since the epoch (what \<^verbatim>\<open>new Date(s).getTime()\<close> yields for the ISO
  string \<^verbatim>\<open>s\<close> that the service stores); the stored ISO string and this number
  determine each other.
\<close>

type_synonym timestamp = int

record UserData =
  user_id :: string
  user_name :: string
  email :: string
  faceDescriptor :: "real list"
  registeredAt :: timestamp

record AttendanceRecord =
  record_id :: string
  userId :: string
  userName :: string
  timestamp :: timestamp
  date :: int

record AttendanceStatus =
  markedToday :: bool
  lastMarked :: "timestamp option"

text \<open>The argument of \<^verbatim>\<open>registerUser\<close>: \<^verbatim>\<open>{name, email, faceDescriptor}\<close>.\<close>

record Registration =
  reg_name :: string
  reg_email :: string
  reg_faceDescriptor :: "real list"

text \<open>
  \<^verbatim>\<open>new Date().toISOString().split("T")[0]\<close>: the calendar date, in UTC, of an instant.
  The date string \<^verbatim>\<open>YYYY-MM-DD\<close> is represented by the number of the UTC day
  (days since the epoch), with which it is in one-to-one correspondence.
\<close>

definition toISODate :: "timestamp \<Rightarrow> int" where
  "toISODate t = t div 86400000"

text \<open>
  What a call can throw: \<^verbatim>\<open>new Error(msg)\<close> raised by the service itself, and the
  exceptions of the platform (\<^verbatim>\<open>localStorage\<close> access, \<^verbatim>\<open>JSON.parse\<close>, a method
  call on a value that is not an array).
\<close>

datatype error = Error string | DOMException | SyntaxError | TypeError

section \<open>The storage medium (localStorage)\<close>

text \<open>
  The content of one \<^verbatim>\<open>localStorage\<close> key, as the service can observe it:
  no entry (\<^verbatim>\<open>getItem\<close> returns \<^verbatim>\<open>null\<close>, or the empty string), a string that \<^verbatim>\<open>JSON.parse\<close> rejects,
  a string that parses to something other than an array of records, or the JSON of a
  list of records.
\<close>

datatype 'a item = Absent | Unparsable | NotArray | Stored "'a list"

text \<open>
  The medium itself: working; refusing every write (private mode); not accessible at all
  (access denied, or no \<^verbatim>\<open>window\<close>); or limited by a quota, so that whether
  \<^verbatim>\<open>setItem\<close> takes a value depends on the value written: \<open>Limited p q\<close> takes the
  list \<open>xs\<close> for the users key exactly when \<open>p xs\<close> holds and the list \<open>rs\<close> for the
  attendance key exactly when \<open>q rs\<close> holds. A limited medium can be read and takes the
  four-character probe of \<^verbatim>\<open>initializeStorage\<close>.
\<close>

datatype medium =
  Working | ReadOnly | Unavailable
  | Limited "UserData list \<Rightarrow> bool" "AttendanceRecord list \<Rightarrow> bool"

text \<open>Which writes a medium takes: the probe, a users list, an attendance list.\<close>

fun accepts_probe :: "medium \<Rightarrow> bool" where
  "accepts_probe Working = True"
| "accepts_probe (Limited p q) = True"
| "accepts_probe ReadOnly = False"
| "accepts_probe Unavailable = False"

fun accepts_users :: "medium \<Rightarrow> UserData list \<Rightarrow> bool" where
  "accepts_users Working xs = True"
| "accepts_users (Limited p q) xs = p xs"
| "accepts_users ReadOnly xs = False"
| "accepts_users Unavailable xs = False"

fun accepts_attendance :: "medium \<Rightarrow> AttendanceRecord list \<Rightarrow> bool" where
  "accepts_attendance Working rs = True"
| "accepts_attendance (Limited p q) rs = q rs"
| "accepts_attendance ReadOnly rs = False"
| "accepts_attendance Unavailable rs = False"

record storage =
  users :: "UserData item"
  attendance :: "AttendanceRecord item"
  medium :: medium

text \<open>\<^verbatim>\<open>localStorage.getItem(key)\<close>; the key is given by its selector.\<close>

definition getItem :: "storage \<Rightarrow> (storage \<Rightarrow> 'a item) \<Rightarrow> error + 'a item" where
  "getItem s key = (if medium s = Unavailable then Inl DOMException else Inr (key s))"

text \<open>\<^verbatim>\<open>localStorage.setItem(STORAGE_KEYS.USERS, JSON.stringify(xs))\<close> and the same for
  \<^verbatim>\<open>STORAGE_KEYS.ATTENDANCE\<close>.\<close>

definition setItem_USERS :: "storage \<Rightarrow> UserData list \<Rightarrow> error + storage" where
  "setItem_USERS s xs =
     (if accepts_users (medium s) xs then Inr (s\<lparr>users := Stored xs\<rparr>)
      else Inl DOMException)"

definition setItem_ATTENDANCE :: "storage \<Rightarrow> AttendanceRecord list \<Rightarrow> error + storage" where
  "setItem_ATTENDANCE s xs =
     (if accepts_attendance (medium s) xs then Inr (s\<lparr>attendance := Stored xs\<rparr>)
      else Inl DOMException)"

text \<open>
  \<^verbatim>\<open>JSON.parse(localStorage.getItem(key) || "[]")\<close>. The value is \<open>Some xs\<close> for an
  array and \<open>None\<close> for a parsed value that is not an array (any array method called on
  it throws \<^verbatim>\<open>TypeError\<close>).
\<close>

fun JSON_parse :: "'a item \<Rightarrow> error + 'a list option" where
  "JSON_parse Absent = Inr (Some [])"
| "JSON_parse Unparsable = Inl SyntaxError"
| "JSON_parse NotArray = Inr None"
| "JSON_parse (Stored xs) = Inr (Some xs)"

definition read_key :: "storage \<Rightarrow> (storage \<Rightarrow> 'a item) \<Rightarrow> error + 'a list option" where
  "read_key s key = (case getItem s key of Inl e \<Rightarrow> Inl e | Inr v \<Rightarrow> JSON_parse v)"

text \<open>
  \<^verbatim>\<open>initializeStorage\<close>. Everything happens inside one \<^verbatim>\<open>try\<close> whose \<^verbatim>\<open>catch\<close> only
  logs, so the first write that throws ends the function with the store as it is by then.
  In order: the probe write \<^verbatim>\<open>setItem("test", "test")\<close>; a missing users key is set to
  \<^verbatim>\<open>[]\<close>, then a missing attendance key; a users key whose string does not parse is
  reset to \<^verbatim>\<open>[]\<close>, then such an attendance key.
\<close>

definition initializeStorage :: "storage \<Rightarrow> storage" where
  "initializeStorage s =
     (if \<not> accepts_probe (medium s) then s
      else
        case (if users s = Absent then setItem_USERS s [] else Inr s) of
          Inl _ \<Rightarrow> s
        | Inr s1 \<Rightarrow>
        (case (if attendance s1 = Absent then setItem_ATTENDANCE s1 [] else Inr s1) of
          Inl _ \<Rightarrow> s1
        | Inr s2 \<Rightarrow>
        (case (if users s2 = Unparsable then setItem_USERS s2 [] else Inr s2) of
          Inl _ \<Rightarrow> s2
        | Inr s3 \<Rightarrow>
        (case (if attendance s3 = Unparsable then setItem_ATTENDANCE s3 [] else Inr s3) of
          Inl _ \<Rightarrow> s3
        | Inr s4 \<Rightarrow> s4))))"

text \<open>The list of records a key holds (none when the key holds no array).\<close>

fun stored :: "'a item \<Rightarrow> 'a list" where
  "stored (Stored xs) = xs"
| "stored Absent = []"
| "stored Unparsable = []"
| "stored NotArray = []"

section \<open>The attendance service\<close>

text \<open>
  \<^verbatim>\<open>users.find(p)\<close> followed by assignments to the fields of the element found: the first
  element that satisfies \<open>p\<close> is replaced in the array.
\<close>

fun update_first :: "('a \<Rightarrow> bool) \<Rightarrow> ('a \<Rightarrow> 'a) \<Rightarrow> 'a list \<Rightarrow> 'a list" where
  "update_first p f [] = []"
| "update_first p f (x # xs) = (if p x then f x # xs else x # update_first p f xs)"

text \<open>
  The inner \<^verbatim>\<open>try\<close>/\<^verbatim>\<open>catch\<close> of \<^verbatim>\<open>registerUser\<close> that loads the users: when the read
  or the parse throws, the key is reset to \<^verbatim>\<open>[]\<close> (a write that may throw in turn) and the
  list is empty.
\<close>

definition load_users :: "storage \<Rightarrow> storage \<times> (error + UserData list option)" where
  "load_users s =
     (case read_key s users of
        Inr v \<Rightarrow> (s, Inr v)
      | Inl _ \<Rightarrow>
          (case setItem_USERS s [] of
             Inl e \<Rightarrow> (s, Inl e)
           | Inr s' \<Rightarrow> (s', Inr (Some []))))"

text \<open>
  The body of the outer \<^verbatim>\<open>try\<close> block of \<^verbatim>\<open>registerUser\<close>. \<open>uid\<close> is the value of
  \<^verbatim>\<open>uuidv4()\<close> and \<open>now\<close> the clock reading of \<^verbatim>\<open>new Date()\<close> in this block.
\<close>

definition registerUser_try ::
  "storage \<Rightarrow> string \<Rightarrow> timestamp \<Rightarrow> Registration \<Rightarrow> storage \<times> (error + UserData)" where
  "registerUser_try s uid now userData =
     (case load_users s of
        (s1, Inl e) \<Rightarrow> (s1, Inl e)
      | (s1, Inr None) \<Rightarrow> (s1, Inl TypeError)
      | (s1, Inr (Some us)) \<Rightarrow>
          (case find (\<lambda>user. email user = reg_email userData) us of
             Some existingUser \<Rightarrow>
               (let updated = existingUser\<lparr>user_name := reg_name userData,
                                faceDescriptor := reg_faceDescriptor userData,
                                registeredAt := now\<rparr>;
                    us' = update_first (\<lambda>user. email user = reg_email userData)
                            (\<lambda>_. updated) us
                in case setItem_USERS s1 us' of
                     Inl e \<Rightarrow> (s1, Inl e)
                   | Inr s2 \<Rightarrow> (s2, Inr updated))
           | None \<Rightarrow>
               (let newUser = \<lparr>user_id = uid, user_name = reg_name userData,
                                email = reg_email userData,
                                faceDescriptor = reg_faceDescriptor userData,
                                registeredAt = now\<rparr>
                in case setItem_USERS s1 (us @ [newUser]) of
                     Inl e \<Rightarrow> (s1, Inl e)
                   | Inr s2 \<Rightarrow> (s2, Inr newUser))))"

text \<open>
  \<^verbatim>\<open>registerUser\<close>. Whatever the \<^verbatim>\<open>try\<close> block throws is caught: a fallback user is
  built from the input with a second identifier \<open>uid'\<close> and a second clock reading
  \<open>now'\<close>, the users key is overwritten with the list holding only that user (a failure
  of this write is caught and logged), and the fallback user is returned. The result is
  the outcome of the promise: \<open>Inl\<close> a rejection, \<open>Inr\<close> the value it resolves to.
\<close>

definition registerUser ::
  "storage \<Rightarrow> string \<times> timestamp \<Rightarrow> string \<times> timestamp \<Rightarrow> Registration
     \<Rightarrow> storage \<times> (error + UserData)" where
  "registerUser s fresh fresh' userData =
     (case registerUser_try (initializeStorage s) (fst fresh) (snd fresh) userData of
        (s1, Inr user) \<Rightarrow> (s1, Inr user)
      | (s1, Inl _) \<Rightarrow>
          (let fallbackUser = \<lparr>user_id = fst fresh', user_name = reg_name userData,
                                email = reg_email userData,
                                faceDescriptor = reg_faceDescriptor userData,
                                registeredAt = snd fresh'\<rparr>
           in case setItem_USERS s1 [fallbackUser] of
                Inl _ \<Rightarrow> (s1, Inr fallbackUser)
              | Inr s2 \<Rightarrow> (s2, Inr fallbackUser)))"

text \<open>
  The comparator \<^verbatim>\<open>(a, b) => new Date(b.timestamp).getTime() - new Date(a.timestamp).getTime()\<close>
  given to \<^verbatim>\<open>Array.prototype.sort\<close>, which is stable: descending by timestamp, records
  with equal timestamps in their stored order.
\<close>

definition sort_newest_first :: "AttendanceRecord list \<Rightarrow> AttendanceRecord list" where
  "sort_newest_first rs = sort_key (\<lambda>r. - timestamp r) rs"

text \<open>\<^verbatim>\<open>checkAttendanceStatus(userId)\<close>; \<open>now\<close> is the clock reading.\<close>

definition checkAttendanceStatus ::
  "storage \<Rightarrow> string \<Rightarrow> timestamp \<Rightarrow> storage \<times> (error + AttendanceStatus)" where
  "checkAttendanceStatus s uid now =
     (let s0 = initializeStorage s in
      case read_key s0 attendance of
        Inl e \<Rightarrow> (s0, Inl e)
      | Inr None \<Rightarrow> (s0, Inl TypeError)
      | Inr (Some attendanceRecords) \<Rightarrow>
          (let today = toISODate now;
               todayRecord = find (\<lambda>r. userId r = uid \<and> date r = today) attendanceRecords;
               userRecords = filter (\<lambda>r. userId r = uid) attendanceRecords;
               lastRecord = (if length userRecords > 0
                             then (case sort_newest_first userRecords of
                                     [] \<Rightarrow> None | r # _ \<Rightarrow> Some r)
                             else None)
           in (s0, Inr \<lparr>markedToday = (todayRecord \<noteq> None),
                         lastMarked = map_option timestamp lastRecord\<rparr>)))"

text \<open>
  \<^verbatim>\<open>markAttendance(userId)\<close>. \<open>rid\<close> is the value of \<^verbatim>\<open>uuidv4()\<close>, \<open>now\<close> the clock
  reading that gives \<^verbatim>\<open>today\<close> and \<open>now'\<close> the later one that gives the timestamp of
  a new record. \<^verbatim>\<open>attendanceRecords.some(p)\<close> holds exactly when
  \<^verbatim>\<open>attendanceRecords.find(p)\<close> yields a record, which is then the one returned.
\<close>

definition markAttendance ::
  "storage \<Rightarrow> string \<Rightarrow> string \<Rightarrow> timestamp \<Rightarrow> timestamp
     \<Rightarrow> storage \<times> (error + AttendanceRecord)" where
  "markAttendance s uid rid now now' =
     (let s0 = initializeStorage s in
      case read_key s0 users of
        Inl e \<Rightarrow> (s0, Inl e)
      | Inr us \<Rightarrow>
      (case read_key s0 attendance of
        Inl e \<Rightarrow> (s0, Inl e)
      | Inr attendanceRecords \<Rightarrow>
      (case us of
        None \<Rightarrow> (s0, Inl TypeError)
      | Some us \<Rightarrow>
      (case find (\<lambda>u. user_id u = uid) us of
        None \<Rightarrow> (s0, Inl (Error ''User not found''))
      | Some user \<Rightarrow>
      (let today = toISODate now in
       case attendanceRecords of
         None \<Rightarrow> (s0, Inl TypeError)
       | Some rs \<Rightarrow>
       (case find (\<lambda>r. userId r = uid \<and> date r = today) rs of
          Some existingRecord \<Rightarrow> (s0, Inr existingRecord)
        | None \<Rightarrow>
            (let newRecord = \<lparr>record_id = rid, userId = user_id user,
                                userName = user_name user, timestamp = now',
                                date = today\<rparr>
             in case setItem_ATTENDANCE s0 (rs @ [newRecord]) of
                  Inl e \<Rightarrow> (s0, Inl e)
                | Inr s1 \<Rightarrow> (s1, Inr newRecord))))))))"

text \<open>\<^verbatim>\<open>getAttendanceRecords()\<close>.\<close>

definition getAttendanceRecords :: "storage \<Rightarrow> storage \<times> (error + AttendanceRecord list)" where
  "getAttendanceRecords s =
     (let s0 = initializeStorage s in
      case read_key s0 attendance of
        Inl e \<Rightarrow> (s0, Inl e)
      | Inr None \<Rightarrow> (s0, Inl TypeError)
      | Inr (Some records) \<Rightarrow> (s0, Inr (sort_newest_first records)))"

section \<open>The face matcher mock\<close>

text \<open>\<^verbatim>\<open>MockLabeledFaceDescriptors\<close>: a label and its descriptors.\<close>

record LabeledFaceDescriptors =
  ld_label :: string
  descriptors :: "real list list"

record MatchResult =
  label :: string
  distance :: real

text \<open>
  JavaScript numbers are IEEE 754 doubles. \<open>to_double x\<close> is the double nearest to the
  real \<open>x\<close>, a tie going to the neighbour with the even significand; \<open>double_ulp x\<close>
  is the distance between neighbouring doubles at the magnitude of \<open>x\<close> (the exponent
  does not go below that of the smallest normal double). Magnitudes of \<open>2 ^ 1024\<close> and
  more, which round to infinity, do not occur in what follows. \<open>is_double\<close> holds of
  the reals that are doubles.
\<close>

definition round_half_even :: "real \<Rightarrow> int" where
  "round_half_even x =
     (let f = \<lfloor>x\<rfloor>; d = x - of_int f
      in if d < 1 / 2 then f else if 1 / 2 < d then f + 1 else if even f then f else f + 1)"

definition double_ulp :: "real \<Rightarrow> real" where
  "double_ulp x = 2 powr of_int (max (- 1022) \<lfloor>log 2 \<bar>x\<bar>\<rfloor> - 52)"

definition to_double :: "real \<Rightarrow> real" where
  "to_double x =
     (if x = 0 then 0
      else sgn x * of_int (round_half_even (\<bar>x\<bar> / double_ulp x)) * double_ulp x)"

definition is_double :: "real \<Rightarrow> bool" where
  "is_double x \<longleftrightarrow>
     (\<exists>m e. \<bar>m\<bar> < 2 ^ 53 \<and> - 1074 \<le> e \<and> e \<le> 971 \<and> x = of_int m * 2 powr of_int e)"

text \<open>
  \<^verbatim>\<open>mockFindBestMatch(descriptor, labeledDescriptors)\<close>. \<open>rnd\<close> is the value of
  \<^verbatim>\<open>Math.random()\<close>, a double. The product \<^verbatim>\<open>Math.random() * labeledDescriptors.length\<close>
  is the double nearest to the exact product (the length of a JavaScript array is below
  \<open>2 ^ 32\<close>, so the length itself is a double); \<^verbatim>\<open>Math.floor\<close> of it is the index.
  Reading the field \<^verbatim>\<open>label\<close> of an element outside the array throws \<^verbatim>\<open>TypeError\<close>.
\<close>

definition mockFindBestMatch ::
  "real \<Rightarrow> real list \<Rightarrow> LabeledFaceDescriptors list \<Rightarrow> error + MatchResult" where
  "mockFindBestMatch rnd descriptor labeledDescriptors =
     (if length labeledDescriptors > 0 then
        (let randomIndex = \<lfloor>to_double (rnd * real (length labeledDescriptors))\<rfloor> in
         if 0 \<le> randomIndex \<and> randomIndex < int (length labeledDescriptors)
         then Inr \<lparr>label = ld_label (labeledDescriptors ! nat randomIndex), distance = 3 / 10\<rparr>
         else Inl TypeError)
      else Inr \<lparr>label = ''unknown'', distance = 1\<rparr>)"

text \<open>\<^verbatim>\<open>MockFaceMatcher\<close>: its two fields and its method \<^verbatim>\<open>findBestMatch\<close>.\<close>

record MockFaceMatcher =
  labeledDescriptors :: "LabeledFaceDescriptors list"
  distanceThreshold :: real

definition findBestMatch :: "MockFaceMatcher \<Rightarrow> real list \<Rightarrow> MatchResult" where
  "findBestMatch this descriptor =
     (case labeledDescriptors this of
        first # _ \<Rightarrow> \<lparr>label = ld_label first, distance = 3 / 10\<rparr>
      | [] \<Rightarrow> \<lparr>label = ''unknown'', distance = 1\<rparr>)"

section \<open>The matcher as the specification words it\<close>

text \<open>
  The specification's \<^verbatim>\<open>match\<close>, for comparison with the mock: the Euclidean distance
  from the query to every candidate embedding, the candidate at minimum distance (the
  first one among equals), returned with its distance when that is strictly below the
  threshold, and \<^verbatim>\<open>"unknown"\<close> with distance 1 otherwise.
\<close>

definition euclideanDistance :: "real list \<Rightarrow> real list \<Rightarrow> real" where
  "euclideanDistance a b = sqrt (\<Sum>(x, y)\<leftarrow>zip a b. (x - y)\<^sup>2)"

fun nearest_spec :: "real list \<Rightarrow> (string \<times> real list) list \<Rightarrow> (string \<times> real) option" where
  "nearest_spec q [] = None"
| "nearest_spec q ((l, e) # cs) =
     (case nearest_spec q cs of
        None \<Rightarrow> Some (l, euclideanDistance q e)
      | Some (l', d') \<Rightarrow>
          if euclideanDistance q e \<le> d' then Some (l, euclideanDistance q e) else Some (l', d'))"

definition match_spec :: "real \<Rightarrow> real list \<Rightarrow> (string \<times> real list) list \<Rightarrow> MatchResult" where
  "match_spec thr q cs =
     (case nearest_spec q cs of
        None \<Rightarrow> \<lparr>label = ''unknown'', distance = 1\<rparr>
      | Some (l, d) \<Rightarrow>
          if d < thr then \<lparr>label = l, distance = d\<rparr>
          else \<lparr>label = ''unknown'', distance = 1\<rparr>)"

text \<open>The (label, embedding) pairs that a list of labeled descriptors stands for.\<close>

definition candidates :: "LabeledFaceDescriptors list \<Rightarrow> (string \<times> real list) list" where
  "candidates lds = concat (map (\<lambda>ld. map (\<lambda>d. (ld_label ld, d)) (descriptors ld)) lds)"

text \<open>The candidates of the specification's scenario: u1 at the origin, u2 at (10, 10, 10).\<close>

definition scenario_candidates :: "LabeledFaceDescriptors list" where
  "scenario_candidates =
     [\<lparr>ld_label = ''u1'', descriptors = [[0, 0, 0]]\<rparr>,
      \<lparr>ld_label = ''u2'', descriptors = [[10, 10, 10]]\<rparr>]"

section \<open>Ledger invariant and reachable stores\<close>

text \<open>At most one attendance record for every pair of user and calendar date.\<close>

definition one_per_day :: "AttendanceRecord list \<Rightarrow> bool" where
  "one_per_day rs = distinct (map (\<lambda>r. (userId r, date r)) rs)"

text \<open>
  The stores that the service can produce: it starts from a \<^verbatim>\<open>localStorage\<close> that holds
  neither key, every exported operation may be called with any arguments, identifiers and
  clock readings, and the medium may change its mode between two calls.
\<close>

inductive reachable :: "storage \<Rightarrow> bool" where
  empty: "reachable \<lparr>users = Absent, attendance = Absent, medium = m\<rparr>"
| medium: "reachable s \<Longrightarrow> reachable (s\<lparr>medium := m\<rparr>)"
| register: "reachable s \<Longrightarrow> reachable (fst (registerUser s fresh fresh' userData))"
| mark: "reachable s \<Longrightarrow> reachable (fst (markAttendance s uid rid now now'))"
| status: "reachable s \<Longrightarrow> reachable (fst (checkAttendanceStatus s uid now))"
| records: "reachable s \<Longrightarrow> reachable (fst (getAttendanceRecords s))"

section \<open>Example data\<close>

text \<open>A registered user, attendance records of that user, and a working store holding them.\<close>

definition example_user :: UserData where
  "example_user = \<lparr>user_id = ''u1'', user_name = ''Bob'', email = ''bob@x.com'',
                    faceDescriptor = [1, 0, 0], registeredAt = 0\<rparr>"

definition example_record :: "string \<Rightarrow> timestamp \<Rightarrow> AttendanceRecord" where
  "example_record rid t = \<lparr>record_id = rid, userId = ''u1'', userName = ''Bob'',
                            timestamp = t, date = toISODate t\<rparr>"

definition example_storage :: "AttendanceRecord list \<Rightarrow> storage" where
  "example_storage rs = \<lparr>users = Stored [example_user], attendance = Stored rs, medium = Working\<rparr>"

definition example_registration :: Registration where
  "example_registration =
     \<lparr>reg_name = ''Alice'', reg_email = ''a@x.com'', reg_faceDescriptor = [1, 0, 0]\<rparr>"

section \<open>The attendance service: storage and ledger\<close>

lemma initializeStorage_effect:
  "medium (initializeStorage s) = medium s
   \<and> (users (initializeStorage s) = users s
        \<or> (users s = Absent \<or> users s = Unparsable) \<and> users (initializeStorage s) = Stored [])
   \<and> (attendance (initializeStorage s) = attendance s
        \<or> (attendance s = Absent \<or> attendance s = Unparsable)
            \<and> attendance (initializeStorage s) = Stored [])"
  by (simp add: initializeStorage_def setItem_USERS_def setItem_ATTENDANCE_def)

lemma medium_initializeStorage [simp]: "medium (initializeStorage s) = medium s"
  using initializeStorage_effect [of s] by simp

lemma initializeStorage_no_probe:
  "\<not> accepts_probe (medium s) \<Longrightarrow> initializeStorage s = s"
  by (simp add: initializeStorage_def)

lemma stored_users_initializeStorage [simp]:
  "stored (users (initializeStorage s)) = stored (users s)"
  using initializeStorage_effect [of s] by auto

lemma stored_attendance_initializeStorage [simp]:
  "stored (attendance (initializeStorage s)) = stored (attendance s)"
  using initializeStorage_effect [of s] by auto

lemma users_initializeStorage_Stored [simp]:
  "users s = Stored us \<Longrightarrow> users (initializeStorage s) = Stored us"
  using initializeStorage_effect [of s] by auto

lemma attendance_initializeStorage_Stored [simp]:
  "attendance s = Stored rs \<Longrightarrow> attendance (initializeStorage s) = Stored rs"
  using initializeStorage_effect [of s] by auto

lemma users_initializeStorage_NotArray [simp]:
  "users (initializeStorage s) = NotArray \<longleftrightarrow> users s = NotArray"
  using initializeStorage_effect [of s] by auto

lemma attendance_initializeStorage_NotArray [simp]:
  "attendance (initializeStorage s) = NotArray \<longleftrightarrow> attendance s = NotArray"
  using initializeStorage_effect [of s] by auto

lemma initializeStorage_Working:
  assumes "medium s = Working"
  shows "users s \<noteq> NotArray \<Longrightarrow> users (initializeStorage s) = Stored (stored (users s))"
    and "attendance s \<noteq> NotArray \<Longrightarrow>
           attendance (initializeStorage s) = Stored (stored (attendance s))"
  using assms
  by (cases "users s"; cases "attendance s";
      simp add: initializeStorage_def setItem_USERS_def setItem_ATTENDANCE_def)+

lemmas users_initializeStorage_Working = initializeStorage_Working(1)
lemmas attendance_initializeStorage_Working = initializeStorage_Working(2)

lemma read_key_Stored:
  "medium s \<noteq> Unavailable \<Longrightarrow> key s = Stored xs \<Longrightarrow> read_key s key = Inr (Some xs)"
  by (simp add: read_key_def getItem_def)

lemma sorted_newest_first:
  "sorted_wrt (\<lambda>a b. timestamp b \<le> timestamp a) (sort_newest_first rs)"
proof -
  have "sorted (map (\<lambda>r. - timestamp r) (sort_key (\<lambda>r. - timestamp r) rs))"
    by (rule sorted_sort_key)
  then show ?thesis
    by (simp add: sort_newest_first_def sorted_map)
qed

lemma mset_newest_first: "mset (sort_newest_first rs) = mset rs"
  by (simp add: sort_newest_first_def)

lemma set_newest_first: "set (sort_newest_first rs) = set rs"
  by (simp add: sort_newest_first_def)

lemma newest_first_three:
  assumes "timestamp e1 < timestamp e3" "timestamp e2 < timestamp e1"
  shows "sort_newest_first [e1, e2, e3] = [e3, e1, e2]"
  using assms by (simp add: sort_newest_first_def)

lemma getAttendanceRecords_Stored:
  assumes "attendance s = Stored recs" "medium s \<noteq> Unavailable"
  shows "getAttendanceRecords s = (initializeStorage s, Inr (sort_newest_first recs))"
  using assms by (simp add: getAttendanceRecords_def Let_def read_key_Stored)

text \<open>
  C9: whatever list of attendance records the store holds, \<^verbatim>\<open>getAttendanceRecords\<close>
  returns exactly these records (as a multiset), ordered by timestamp descending; three
  records stored in the order of their times T1, T2, T3 with T3 > T1 > T2 come back
  in the order T3, T1, T2.
\<close>

theorem C9_newest_first:
  assumes "attendance s = Stored recs" and "medium s \<noteq> Unavailable"
  shows "\<exists>rs. snd (getAttendanceRecords s) = Inr rs
            \<and> sorted_wrt (\<lambda>a b. timestamp b \<le> timestamp a) rs
            \<and> mset rs = mset recs
            \<and> (recs = [e1, e2, e3] \<and> timestamp e1 < timestamp e3
                   \<and> timestamp e2 < timestamp e1 \<longrightarrow> rs = [e3, e1, e2])"
  using assms
  by (auto simp add: getAttendanceRecords_Stored sorted_newest_first mset_newest_first
      newest_first_three)

theorem C9_newest_first_witness:
  "attendance (example_storage [example_record ''a'' 200, example_record ''b'' 100,
                                example_record ''c'' 300])
     = Stored [example_record ''a'' 200, example_record ''b'' 100, example_record ''c'' 300]
   \<and> medium (example_storage [example_record ''a'' 200, example_record ''b'' 100,
                                example_record ''c'' 300]) \<noteq> Unavailable
   \<and> snd (getAttendanceRecords (example_storage
             [example_record ''a'' 200, example_record ''b'' 100, example_record ''c'' 300]))
     = Inr [example_record ''c'' 300, example_record ''a'' 200, example_record ''b'' 100]"
  using C9_newest_first
    [of "example_storage [example_record ''a'' 200, example_record ''b'' 100,
                           example_record ''c'' 300]"
        "[example_record ''a'' 200, example_record ''b'' 100, example_record ''c'' 300]"
        "example_record ''a'' 200" "example_record ''b'' 100" "example_record ''c'' 300"]
  by (auto simp add: example_storage_def example_record_def)

lemma newest_first_head:
  assumes "sort_newest_first xs = y # ys"
  shows "timestamp y = Max (timestamp ` set xs)"
proof -
  have s: "sorted_wrt (\<lambda>a b. timestamp b \<le> timestamp a) (y # ys)"
    using sorted_newest_first [of xs] assms by simp
  have set: "set xs = insert y (set ys)"
    using set_newest_first [of xs] assms by simp
  have "Max (timestamp ` set xs) = timestamp y"
  proof (rule Max_eqI)
    show "finite (timestamp ` set xs)" by simp
    show "timestamp y \<in> timestamp ` set xs" using set by simp
    fix t assume "t \<in> timestamp ` set xs"
    then show "t \<le> timestamp y" using s set by auto
  qed
  then show ?thesis by simp
qed

lemma find_None_filter: "find p xs = None \<longleftrightarrow> filter p xs = []"
  by (induction xs) auto

lemma last_record_timestamp:
  "map_option timestamp
     (if length (filter (\<lambda>r. userId r = uid) recs) > 0
      then (case sort_newest_first (filter (\<lambda>r. userId r = uid) recs) of
              [] \<Rightarrow> None | r # _ \<Rightarrow> Some r)
      else None)
   = (if \<exists>r \<in> set recs. userId r = uid
      then Some (Max (timestamp ` set (filter (\<lambda>r. userId r = uid) recs))) else None)"
proof (cases "filter (\<lambda>r. userId r = uid) recs = []")
  case True
  then have "\<not> (\<exists>r \<in> set recs. userId r = uid)"
    by (simp add: filter_empty_conv)
  with True show ?thesis by simp
next
  case False
  then have ex: "\<exists>r \<in> set recs. userId r = uid"
    by (simp add: filter_empty_conv)
  from False have "length (sort_newest_first (filter (\<lambda>r. userId r = uid) recs)) \<noteq> 0"
    by (simp add: sort_newest_first_def)
  then obtain y ys where sorted: "sort_newest_first (filter (\<lambda>r. userId r = uid) recs) = y # ys"
    by (cases "sort_newest_first (filter (\<lambda>r. userId r = uid) recs)") auto
  have "timestamp y = Max (timestamp ` set (filter (\<lambda>r. userId r = uid) recs))"
    by (rule newest_first_head [OF sorted])
  with False ex sorted show ?thesis by simp
qed

lemma today_record_found:
  "(find (\<lambda>r. userId r = uid \<and> date r = today) recs \<noteq> None)
      = (\<exists>r \<in> set recs. userId r = uid \<and> date r = today)"
  by (auto simp add: find_None_iff)

lemma checkAttendanceStatus_Stored:
  assumes "attendance s = Stored recs" and "medium s \<noteq> Unavailable"
  shows "checkAttendanceStatus s uid now =
    (initializeStorage s,
     Inr \<lparr>markedToday = (\<exists>r \<in> set recs. userId r = uid \<and> date r = toISODate now),
          lastMarked = (if \<exists>r \<in> set recs. userId r = uid
                        then Some (Max (timestamp ` set (filter (\<lambda>r. userId r = uid) recs)))
                        else None)\<rparr>)"
proof -
  have rd: "read_key (initializeStorage s) attendance = Inr (Some recs)"
    using assms by (simp add: read_key_Stored)
  show ?thesis
    unfolding checkAttendanceStatus_def Let_def rd last_record_timestamp today_record_found
    by simp
qed

lemma read_key_Some: "read_key s key = Inr (Some xs) \<Longrightarrow> stored (key s) = xs"
  by (cases "key s") (simp_all add: read_key_def getItem_def split: if_splits)

lemma read_key_Working:
  "medium s = Working \<Longrightarrow> key s = Stored xs \<Longrightarrow> read_key s key = Inr (Some xs)"
  by (simp add: read_key_def getItem_def)

lemma markAttendance_Working:
  assumes "medium s = Working" "users s \<noteq> NotArray" "attendance s \<noteq> NotArray"
  shows "markAttendance s uid rid now now' =
    (case find (\<lambda>u. user_id u = uid) (stored (users s)) of
       None \<Rightarrow> (initializeStorage s, Inl (Error ''User not found''))
     | Some user \<Rightarrow>
        (case find (\<lambda>r. userId r = uid \<and> date r = toISODate now) (stored (attendance s)) of
           Some existingRecord \<Rightarrow> (initializeStorage s, Inr existingRecord)
         | None \<Rightarrow>
            ((initializeStorage s)\<lparr>attendance := Stored (stored (attendance s) @
                 [\<lparr>record_id = rid, userId = user_id user, userName = user_name user,
                   timestamp = now', date = toISODate now\<rparr>])\<rparr>,
             Inr \<lparr>record_id = rid, userId = user_id user, userName = user_name user,
                   timestamp = now', date = toISODate now\<rparr>)))"
proof -
  have u: "read_key (initializeStorage s) users = Inr (Some (stored (users s)))"
    using assms by (simp add: read_key_Working users_initializeStorage_Working)
  have a: "read_key (initializeStorage s) attendance = Inr (Some (stored (attendance s)))"
    using assms by (simp add: read_key_Working attendance_initializeStorage_Working)
  show ?thesis
    unfolding markAttendance_def Let_def u a
    using assms by (simp add: setItem_ATTENDANCE_def split: option.splits)
qed

lemma markAttendance_state:
  "fst (markAttendance s uid rid now now') = initializeStorage s \<or>
   (\<exists>user. find (\<lambda>u. user_id u = uid) (stored (users s)) = Some user
      \<and> find (\<lambda>r. userId r = uid \<and> date r = toISODate now) (stored (attendance s)) = None
      \<and> fst (markAttendance s uid rid now now') =
          (initializeStorage s)\<lparr>attendance := Stored (stored (attendance s) @
             [\<lparr>record_id = rid, userId = user_id user, userName = user_name user,
               timestamp = now', date = toISODate now\<rparr>])\<rparr>)"
proof -
  have "\<And>xs. read_key (initializeStorage s) users = Inr (Some xs) \<Longrightarrow> xs = stored (users s)"
    using read_key_Some [of "initializeStorage s" users] by simp
  moreover
  have "\<And>xs. read_key (initializeStorage s) attendance = Inr (Some xs) \<Longrightarrow> xs = stored (attendance s)"
    using read_key_Some [of "initializeStorage s" attendance] by simp
  ultimately show ?thesis
    unfolding markAttendance_def Let_def
    by (auto simp add: setItem_ATTENDANCE_def split: sum.splits option.splits if_splits)
qed

lemma initializeStorage_Stored:
  "users s = Stored us \<Longrightarrow> attendance s = Stored rs \<Longrightarrow> initializeStorage s = s"
  by (simp add: initializeStorage_def Let_def)

lemma find_user_id: "find (\<lambda>u. user_id u = uid) us = Some user \<Longrightarrow> user_id user = uid"
  by (auto simp add: find_Some_iff)

lemma find_snoc:
  "find p (xs @ [y]) = (case find p xs of None \<Rightarrow> (if p y then Some y else None) | Some x \<Rightarrow> Some x)"
  by (induction xs) auto

lemma filter_key_single:
  assumes "distinct (map k xs)" "find (\<lambda>r. k r = v) xs = Some e"
  shows "filter (\<lambda>r. k r = v) xs = [e]"
  using assms
proof (induction xs)
  case Nil
  then show ?case by simp
next
  case (Cons x xs)
  show ?case
  proof (cases "k x = v")
    case True
    with Cons.prems have e: "e = x" by simp
    from Cons.prems have "k x \<notin> k ` set xs" by simp
    with True have "\<forall>r \<in> set xs. k r \<noteq> v" by blast
    with True e show ?thesis by (simp add: filter_empty_conv)
  next
    case False
    with Cons show ?thesis by simp
  qed
qed

lemma filter_per_day_single:
  assumes "one_per_day rs" "find (\<lambda>r. userId r = uid \<and> date r = d) rs = Some e"
  shows "filter (\<lambda>r. userId r = uid \<and> date r = d) rs = [e]"
  using filter_key_single [of "\<lambda>r. (userId r, date r)" rs "(uid, d)" e] assms
  by (simp add: one_per_day_def)

lemma markAttendance_twice:
  assumes w: "medium s = Working" "users s \<noteq> NotArray" "attendance s \<noteq> NotArray"
    and u: "find (\<lambda>u. user_id u = uid) (stored (users s)) = Some user"
    and d: "toISODate now2 = toISODate now1"
  shows "\<exists>e. snd (markAttendance s uid rid1 now1 now1') = Inr e
      \<and> userId e = uid \<and> date e = toISODate now1
      \<and> markAttendance (fst (markAttendance s uid rid1 now1 now1')) uid rid2 now2 now2'
          = (fst (markAttendance s uid rid1 now1 now1'), Inr e)
      \<and> (one_per_day (stored (attendance s)) \<longrightarrow>
           filter (\<lambda>r. userId r = uid \<and> date r = toISODate now1)
             (stored (attendance (fst (markAttendance s uid rid1 now1 now1')))) = [e])"
proof -
  let ?recs = "stored (attendance s)"
  let ?P = "\<lambda>r. userId r = uid \<and> date r = toISODate now1"
  let ?s0 = "initializeStorage s"
  have us0: "users ?s0 = Stored (stored (users s))"
    using w by (simp add: users_initializeStorage_Working)
  have as0: "attendance ?s0 = Stored ?recs"
    using w by (simp add: attendance_initializeStorage_Working)
  have uid: "user_id user = uid" using u by (rule find_user_id)
  show ?thesis
  proof (cases "find ?P ?recs")
    case (Some e)
    have first: "markAttendance s uid rid1 now1 now1' = (?s0, Inr e)"
      using u Some by (simp add: markAttendance_Working [OF w])
    have init: "initializeStorage ?s0 = ?s0"
      using us0 as0 by (rule initializeStorage_Stored)
    have second: "markAttendance ?s0 uid rid2 now2 now2' = (?s0, Inr e)"
      using u Some d us0 as0 init w(1) by (simp add: markAttendance_Working)
    have e: "userId e = uid \<and> date e = toISODate now1"
      using Some by (auto simp add: find_Some_iff)
    have "one_per_day ?recs \<longrightarrow> filter ?P ?recs = [e]"
      using Some by (simp add: filter_per_day_single)
    with first second e show ?thesis by simp
  next
    case None
    let ?new = "\<lparr>record_id = rid1, userId = user_id user, userName = user_name user,
                  timestamp = now1', date = toISODate now1\<rparr>"
    let ?s1 = "?s0\<lparr>attendance := Stored (?recs @ [?new])\<rparr>"
    have first: "markAttendance s uid rid1 now1 now1' = (?s1, Inr ?new)"
      using u None by (simp add: markAttendance_Working [OF w])
    have init: "initializeStorage ?s1 = ?s1"
      using us0 by (simp add: initializeStorage_Stored)
    have found: "find ?P (?recs @ [?new]) = Some ?new"
      using None uid by (simp add: find_snoc)
    have second: "markAttendance ?s1 uid rid2 now2 now2' = (?s1, Inr ?new)"
      using u found d us0 init w(1) by (simp add: markAttendance_Working)
    have "filter ?P (?recs @ [?new]) = [?new]"
      using None uid by (simp add: find_None_filter)
    with first second uid show ?thesis by simp
  qed
qed

lemma fst_checkAttendanceStatus [simp]:
  "fst (checkAttendanceStatus s uid now) = initializeStorage s"
  by (simp add: checkAttendanceStatus_def Let_def split: sum.splits option.splits)

lemma fst_getAttendanceRecords [simp]: "fst (getAttendanceRecords s) = initializeStorage s"
  by (simp add: getAttendanceRecords_def Let_def split: sum.splits option.splits)

lemma attendance_load_users [simp]: "attendance (fst (load_users s)) = attendance s"
  by (simp add: load_users_def setItem_USERS_def split: sum.splits)

lemma attendance_registerUser_try [simp]:
  "attendance (fst (registerUser_try s uid now userData)) = attendance s"
proof -
  obtain s1 r where l: "load_users s = (s1, r)" by (cases "load_users s")
  then have "attendance s1 = attendance s"
    using attendance_load_users [of s] by simp
  with l show ?thesis
    by (simp add: registerUser_try_def Let_def setItem_USERS_def
        split: sum.splits option.splits)
qed

lemma stored_attendance_registerUser [simp]:
  "stored (attendance (fst (registerUser s fresh fresh' userData)))
     = stored (attendance s)"
proof -
  obtain s1 r where t: "registerUser_try (initializeStorage s) (fst fresh) (snd fresh) userData = (s1, r)"
    by (cases "registerUser_try (initializeStorage s) (fst fresh) (snd fresh) userData")
  then have "attendance s1 = attendance (initializeStorage s)"
    using attendance_registerUser_try [of "initializeStorage s" "fst fresh" "snd fresh" userData]
    by simp
  with t show ?thesis
    by (simp add: registerUser_def Let_def setItem_USERS_def split: sum.splits)
qed

lemma one_per_day_markAttendance:
  assumes "one_per_day (stored (attendance s))"
  shows "one_per_day (stored (attendance (fst (markAttendance s uid rid now now'))))"
  using markAttendance_state [of s uid rid now now']
proof (elim disjE exE conjE)
  assume "fst (markAttendance s uid rid now now') = initializeStorage s"
  with assms show ?thesis by simp
next
  fix user
  assume u: "find (\<lambda>u. user_id u = uid) (stored (users s)) = Some user"
    and n: "find (\<lambda>r. userId r = uid \<and> date r = toISODate now) (stored (attendance s)) = None"
    and s: "fst (markAttendance s uid rid now now') =
          (initializeStorage s)\<lparr>attendance := Stored (stored (attendance s) @
             [\<lparr>record_id = rid, userId = user_id user, userName = user_name user,
               timestamp = now', date = toISODate now\<rparr>])\<rparr>"
  from u have "user_id user = uid" by (rule find_user_id)
  moreover from n have "(uid, toISODate now) \<notin> (\<lambda>r. (userId r, date r)) ` set (stored (attendance s))"
    by (auto simp add: find_None_iff)
  ultimately show ?thesis
    using assms s by (simp add: one_per_day_def)
qed

lemma reachable_one_per_day: "reachable s \<Longrightarrow> one_per_day (stored (attendance s))"
proof (induction rule: reachable.induct)
  case (empty m)
  show ?case by (simp add: one_per_day_def)
next
  case (medium s m)
  then show ?case by simp
next
  case (register s fresh fresh' userData)
  then show ?case by simp
next
  case (mark s uid rid now now')
  from mark.IH show ?case by (rule one_per_day_markAttendance)
next
  case (status s uid now)
  then show ?case by simp
next
  case (records s)
  then show ?case by simp
qed

text \<open>
  C6: in a working store, \<^verbatim>\<open>markAttendance\<close> throws \<^verbatim>\<open>Error("User not found")\<close>
  exactly when no stored user has the given id, and then the stored attendance records and
  users are as before. When the user exists the call succeeds: it returns the record
  already stored for the user and today, changing nothing, or else appends a new record,
  which it returns.
\<close>

theorem C6_user_not_found:
  assumes "medium s = Working" and "users s \<noteq> NotArray" and "attendance s \<noteq> NotArray"
  shows "(snd (markAttendance s uid rid now now') = Inl (Error ''User not found'')
            \<longleftrightarrow> uid \<notin> user_id ` set (stored (users s)))
       \<and> (uid \<notin> user_id ` set (stored (users s)) \<longrightarrow>
            stored (attendance (fst (markAttendance s uid rid now now'))) = stored (attendance s)
            \<and> stored (users (fst (markAttendance s uid rid now now'))) = stored (users s))
       \<and> (uid \<in> user_id ` set (stored (users s)) \<longrightarrow>
            (\<exists>user e. find (\<lambda>u. user_id u = uid) (stored (users s)) = Some user
               \<and> snd (markAttendance s uid rid now now') = Inr e
               \<and> (case find (\<lambda>r. userId r = uid \<and> date r = toISODate now)
                           (stored (attendance s)) of
                     Some existingRecord \<Rightarrow>
                       e = existingRecord
                       \<and> stored (attendance (fst (markAttendance s uid rid now now')))
                           = stored (attendance s)
                   | None \<Rightarrow>
                       e = \<lparr>record_id = rid, userId = uid, userName = user_name user,
                             timestamp = now', date = toISODate now\<rparr>
                       \<and> stored (attendance (fst (markAttendance s uid rid now now')))
                           = stored (attendance s) @ [e])))"
proof (cases "find (\<lambda>u. user_id u = uid) (stored (users s))")
  case None
  then have "uid \<notin> user_id ` set (stored (users s))"
    by (auto simp add: find_None_iff)
  with None show ?thesis
    by (simp add: markAttendance_Working [OF assms])
next
  case (Some user)
  then have uid: "user_id user = uid" by (rule find_user_id)
  from Some have "user \<in> set (stored (users s))"
    by (auto simp add: find_Some_iff)
  with uid have "uid \<in> user_id ` set (stored (users s))" by auto
  with Some uid show ?thesis
    by (simp add: markAttendance_Working [OF assms] split: option.splits)
qed

theorem C6_user_not_found_witness:
  "medium (example_storage []) = Working
   \<and> users (example_storage []) \<noteq> NotArray \<and> attendance (example_storage []) \<noteq> NotArray
   \<and> snd (markAttendance (example_storage []) ''u7'' ''r1'' 1704099600000 1704099600001)
       = Inl (Error ''User not found'')
   \<and> stored (attendance (fst (markAttendance (example_storage []) ''u7'' ''r1''
         1704099600000 1704099600001))) = []
   \<and> snd (markAttendance (example_storage []) ''u1'' ''r1'' 1704099600000 1704099600001)
       = Inr \<lparr>record_id = ''r1'', userId = ''u1'', userName = ''Bob'',
               timestamp = 1704099600001, date = 19723\<rparr>"
  using C6_user_not_found
      [of "example_storage []" "''u7''" "''r1''" 1704099600000 1704099600001]
    C6_user_not_found
      [of "example_storage []" "''u1''" "''r1''" 1704099600000 1704099600001]
  by (simp add: example_storage_def example_user_def toISODate_def)

lemma status_after_two_days:
  assumes w: "medium s = Working" "users s \<noteq> NotArray" "attendance s \<noteq> NotArray"
    and u: "find (\<lambda>u. user_id u = uid) (stored (users s)) = Some user"
    and none: "uid \<notin> userId ` set (stored (attendance s))"
    and d: "toISODate now2 \<noteq> toISODate now1"
    and t: "now1' \<le> now2'"
  shows "snd (checkAttendanceStatus
           (fst (markAttendance (fst (markAttendance s uid rid1 now1 now1')) uid rid2 now2 now2'))
           uid now)
         = Inr \<lparr>markedToday = (toISODate now = toISODate now1 \<or> toISODate now = toISODate now2),
                lastMarked = Some now2'\<rparr>"
proof -
  let ?recs = "stored (attendance s)"
  let ?s0 = "initializeStorage s"
  let ?e1 = "\<lparr>record_id = rid1, userId = user_id user, userName = user_name user,
                timestamp = now1', date = toISODate now1\<rparr>"
  let ?e2 = "\<lparr>record_id = rid2, userId = user_id user, userName = user_name user,
                timestamp = now2', date = toISODate now2\<rparr>"
  let ?s1 = "?s0\<lparr>attendance := Stored (?recs @ [?e1])\<rparr>"
  let ?s2 = "?s0\<lparr>attendance := Stored (?recs @ [?e1, ?e2])\<rparr>"
  have us0: "users ?s0 = Stored (stored (users s))"
    using w by (simp add: users_initializeStorage_Working)
  have uid: "user_id user = uid" using u by (rule find_user_id)
  have no: "\<forall>r \<in> set ?recs. userId r \<noteq> uid"
    using none by auto
  then have f1: "find (\<lambda>r. userId r = uid \<and> date r = toISODate now1) ?recs = None"
    by (auto simp add: find_None_iff)
  have first: "markAttendance s uid rid1 now1 now1' = (?s1, Inr ?e1)"
    using u f1 by (simp add: markAttendance_Working [OF w])
  have init: "initializeStorage ?s1 = ?s1"
    using us0 by (simp add: initializeStorage_Stored)
  have f2: "find (\<lambda>r. userId r = uid \<and> date r = toISODate now2) (?recs @ [?e1]) = None"
    using no d by (auto simp add: find_None_iff)
  have second: "markAttendance ?s1 uid rid2 now2 now2' = (?s2, Inr ?e2)"
    using u f2 us0 init w(1) by (simp add: markAttendance_Working)
  have "filter (\<lambda>r. userId r = uid) ?recs = []"
    using no by (simp add: filter_empty_conv)
  then have mine: "set (filter (\<lambda>r. userId r = uid) (?recs @ [?e1, ?e2])) = {?e1, ?e2}"
    using uid by simp
  have status: "checkAttendanceStatus ?s2 uid now =
      (initializeStorage ?s2,
       Inr \<lparr>markedToday = (\<exists>r \<in> set (?recs @ [?e1, ?e2]). userId r = uid \<and> date r = toISODate now),
            lastMarked = (if \<exists>r \<in> set (?recs @ [?e1, ?e2]). userId r = uid
                          then Some (Max (timestamp ` set (filter (\<lambda>r. userId r = uid) (?recs @ [?e1, ?e2]))))
                          else None)\<rparr>)"
    using w(1) by (intro checkAttendanceStatus_Stored) simp_all
  have marked: "(\<exists>r \<in> set (?recs @ [?e1, ?e2]). userId r = uid \<and> date r = toISODate now)
      = (toISODate now = toISODate now1 \<or> toISODate now = toISODate now2)"
    using no uid by auto
  have ex: "\<exists>r \<in> set (?recs @ [?e1, ?e2]). userId r = uid"
    using uid by simp
  have last: "Max (timestamp ` set (filter (\<lambda>r. userId r = uid) (?recs @ [?e1, ?e2]))) = now2'"
    unfolding mine using t by simp
  show ?thesis
    unfolding first fst_conv second status snd_conv marked last
    using ex by simp
qed

text \<open>
  C5: when the store holds an array of attendance records and can be read,
  \<^verbatim>\<open>checkAttendanceStatus\<close> reports \<^verbatim>\<open>markedToday\<close> exactly when a record exists for
  the user and the calendar date of the clock reading, and \<^verbatim>\<open>lastMarked\<close> is the greatest
  timestamp among all records of the user, or absent when the user has none. After a user
  without records is marked on one day and then on a later, different day, the status asked
  on that later day reports \<^verbatim>\<open>markedToday\<close> and the timestamp of the later record.
\<close>

theorem C5_status:
  "(attendance s = Stored recs \<and> medium s \<noteq> Unavailable \<longrightarrow>
      snd (checkAttendanceStatus s uid now) =
        Inr \<lparr>markedToday = (\<exists>r \<in> set recs. userId r = uid \<and> date r = toISODate now),
             lastMarked = (if \<exists>r \<in> set recs. userId r = uid
                           then Some (Max (timestamp ` set (filter (\<lambda>r. userId r = uid) recs)))
                           else None)\<rparr>)
   \<and> (medium s = Working \<and> users s \<noteq> NotArray \<and> attendance s \<noteq> NotArray
        \<and> find (\<lambda>u. user_id u = uid) (stored (users s)) = Some user
        \<and> uid \<notin> userId ` set (stored (attendance s))
        \<and> toISODate now2 \<noteq> toISODate now1 \<and> now1' \<le> now2'
        \<and> toISODate now = toISODate now2 \<longrightarrow>
      snd (checkAttendanceStatus
             (fst (markAttendance (fst (markAttendance s uid rid1 now1 now1')) uid rid2 now2 now2'))
             uid now)
        = Inr \<lparr>markedToday = True, lastMarked = Some now2'\<rparr>)"
  using status_after_two_days [of s uid user now2 now1 now1' now2' rid1 rid2 now]
  by (simp add: checkAttendanceStatus_Stored)

theorem C5_status_witness:
  "attendance (example_storage [example_record ''a'' 200, example_record ''b'' 86400300])
     = Stored [example_record ''a'' 200, example_record ''b'' 86400300]
   \<and> medium (example_storage [example_record ''a'' 200, example_record ''b'' 86400300])
       \<noteq> Unavailable
   \<and> snd (checkAttendanceStatus
            (example_storage [example_record ''a'' 200, example_record ''b'' 86400300])
            ''u1'' 500)
       = Inr \<lparr>markedToday = True, lastMarked = Some 86400300\<rparr>
   \<and> medium (example_storage []) = Working
   \<and> users (example_storage []) \<noteq> NotArray \<and> attendance (example_storage []) \<noteq> NotArray
   \<and> find (\<lambda>u. user_id u = ''u1'') (stored (users (example_storage []))) = Some example_user
   \<and> ''u1'' \<notin> userId ` set (stored (attendance (example_storage [])))
   \<and> toISODate 86400300 \<noteq> toISODate 200 \<and> (201::int) \<le> 86400301
   \<and> toISODate 86400999 = toISODate 86400300
   \<and> snd (checkAttendanceStatus
            (fst (markAttendance (fst (markAttendance (example_storage []) ''u1'' ''a'' 200 201))
                   ''u1'' ''b'' 86400300 86400301))
            ''u1'' 86400999)
       = Inr \<lparr>markedToday = True, lastMarked = Some 86400301\<rparr>"
  using C5_status
      [where s = "example_storage [example_record ''a'' 200, example_record ''b'' 86400300]"
         and recs = "[example_record ''a'' 200, example_record ''b'' 86400300]"
         and uid = "''u1''" and now = 500]
    C5_status
      [where s = "example_storage []" and uid = "''u1''" and user = example_user
         and ?now2.0 = 86400300 and ?now1.0 = 200 and now1' = 201 and now2' = 86400301
         and now = 86400999 and ?rid1.0 = "''a''" and ?rid2.0 = "''b''"]
  by (simp add: example_storage_def example_user_def example_record_def toISODate_def)

section \<open>Registration\<close>

lemma length_update_first [simp]: "length (update_first p f xs) = length xs"
  by (induction xs) auto

lemma find_update_first:
  "find p xs = Some x \<Longrightarrow> p y \<Longrightarrow> find p (update_first p (\<lambda>_. y) xs) = Some y"
  by (induction xs) (auto split: if_splits)

lemma filter_update_first:
  "find p xs = Some x \<Longrightarrow> p y \<Longrightarrow>
     filter p (update_first p (\<lambda>_. y) xs) = y # tl (filter p xs)"
  by (induction xs) (auto split: if_splits)

lemma map_update_first:
  "find p xs = Some x \<Longrightarrow> g y = g x \<Longrightarrow> map g (update_first p (\<lambda>_. y) xs) = map g xs"
  by (induction xs) (auto split: if_splits)

lemma load_users_Working:
  "medium s = Working \<Longrightarrow> users s = Stored us \<Longrightarrow> load_users s = (s, Inr (Some us))"
  by (simp add: load_users_def read_key_Working)

lemma registerUser_Working:
  assumes "medium s = Working" "users s \<noteq> NotArray"
  shows "registerUser s fresh fresh' userData =
    (case find (\<lambda>user. email user = reg_email userData) (stored (users s)) of
       Some existingUser \<Rightarrow>
         ((initializeStorage s)\<lparr>users := Stored
             (update_first (\<lambda>user. email user = reg_email userData)
                (\<lambda>_. existingUser\<lparr>user_name := reg_name userData,
                        faceDescriptor := reg_faceDescriptor userData,
                        registeredAt := snd fresh\<rparr>) (stored (users s)))\<rparr>,
          Inr (existingUser\<lparr>user_name := reg_name userData,
                 faceDescriptor := reg_faceDescriptor userData,
                 registeredAt := snd fresh\<rparr>))
     | None \<Rightarrow>
         ((initializeStorage s)\<lparr>users := Stored (stored (users s) @
             [\<lparr>user_id = fst fresh, user_name = reg_name userData,
               email = reg_email userData, faceDescriptor = reg_faceDescriptor userData,
               registeredAt = snd fresh\<rparr>])\<rparr>,
          Inr \<lparr>user_id = fst fresh, user_name = reg_name userData,
                email = reg_email userData, faceDescriptor = reg_faceDescriptor userData,
                registeredAt = snd fresh\<rparr>))"
proof -
  have l: "load_users (initializeStorage s) = (initializeStorage s, Inr (Some (stored (users s))))"
    using assms by (simp add: load_users_Working users_initializeStorage_Working)
  show ?thesis
    unfolding registerUser_def registerUser_try_def l Let_def
    using assms(1) by (simp add: setItem_USERS_def split: option.splits)
qed

lemma load_users_effect:
  assumes "load_users s = (s1, r)"
  shows "medium s1 = medium s" and "attendance s1 = attendance s"
    and "stored (users s1) = stored (users s)"
    and "users s \<noteq> NotArray \<Longrightarrow> users s1 \<noteq> NotArray"
    and "r = Inr (Some us) \<Longrightarrow> us = stored (users s1)"
    and "r = Inr (Some us) \<Longrightarrow> users s \<noteq> NotArray"
  using assms
  by (cases "users s";
      auto simp add: load_users_def read_key_def getItem_def setItem_USERS_def
        split: if_splits)+

lemma registerUser_try_step:
  assumes "registerUser_try s uid now userData = (s1, r)"
  shows "\<exists>s0 l. load_users s = (s0, l)
      \<and> (s1 = s0
          \<or> (\<exists>us. l = Inr (Some us) \<and> find (\<lambda>user. email user = reg_email userData) us = None
                \<and> s1 = s0\<lparr>users := Stored (us @
                      [\<lparr>user_id = uid, user_name = reg_name userData,
                        email = reg_email userData,
                        faceDescriptor = reg_faceDescriptor userData,
                        registeredAt = now\<rparr>])\<rparr>)
          \<or> (\<exists>us existing. l = Inr (Some us)
                \<and> find (\<lambda>user. email user = reg_email userData) us = Some existing
                \<and> s1 = s0\<lparr>users := Stored (update_first
                      (\<lambda>user. email user = reg_email userData)
                      (\<lambda>_. existing\<lparr>user_name := reg_name userData,
                              faceDescriptor := reg_faceDescriptor userData,
                              registeredAt := now\<rparr>) us)\<rparr>))"
proof -
  obtain s0 l where l: "load_users s = (s0, l)" by (cases "load_users s")
  show ?thesis
  proof (cases l)
    case (Inl err)
    with assms l show ?thesis by (simp add: registerUser_try_def)
  next
    case (Inr v)
    show ?thesis
    proof (cases v)
      case None
      with Inr assms l show ?thesis by (simp add: registerUser_try_def)
    next
      case (Some us)
      show ?thesis
      proof (cases "find (\<lambda>user. email user = reg_email userData) us")
        case None
        with assms l Inr Some show ?thesis
          by (simp add: registerUser_try_def Let_def setItem_USERS_def split: if_splits)
      next
        case (Some existing)
        with assms l Inr \<open>v = Some us\<close> show ?thesis
          by (simp add: registerUser_try_def Let_def setItem_USERS_def split: if_splits)
      qed
    qed
  qed
qed

lemma registerUser_try_effect:
  assumes "registerUser_try s uid now userData = (s1, r)"
  shows "medium s1 = medium s" and "attendance s1 = attendance s"
    and "users s \<noteq> NotArray \<Longrightarrow> users s1 \<noteq> NotArray"
    and "distinct (map email (stored (users s))) \<Longrightarrow> distinct (map email (stored (users s1)))"
proof -
  let ?p = "\<lambda>user. email user = reg_email userData"
  from registerUser_try_step [OF assms]
  obtain s0 l where l: "load_users s = (s0, l)"
    and c: "s1 = s0
          \<or> (\<exists>us. l = Inr (Some us) \<and> find ?p us = None
                \<and> s1 = s0\<lparr>users := Stored (us @
                      [\<lparr>user_id = uid, user_name = reg_name userData,
                        email = reg_email userData,
                        faceDescriptor = reg_faceDescriptor userData,
                        registeredAt = now\<rparr>])\<rparr>)
          \<or> (\<exists>us existing. l = Inr (Some us) \<and> find ?p us = Some existing
                \<and> s1 = s0\<lparr>users := Stored (update_first ?p
                      (\<lambda>_. existing\<lparr>user_name := reg_name userData,
                              faceDescriptor := reg_faceDescriptor userData,
                              registeredAt := now\<rparr>) us)\<rparr>)"
    by blast
  note e = load_users_effect [OF l]
  from c e(1) show "medium s1 = medium s" by auto
  from c e(2) show "attendance s1 = attendance s" by auto
  {
    assume "users s \<noteq> NotArray"
    then have "users s0 \<noteq> NotArray" by (rule e(4))
    with c show "users s1 \<noteq> NotArray" by auto
  }
  {
    assume "distinct (map email (stored (users s)))"
    then have d: "distinct (map email (stored (users s0)))" by (simp add: e(3))
    from c show "distinct (map email (stored (users s1)))"
    proof (elim disjE exE conjE)
      assume "s1 = s0"
      with d show ?thesis by simp
    next
      fix us
      assume a: "l = Inr (Some us)" "find ?p us = None"
        and s1: "s1 = s0\<lparr>users := Stored (us @
                      [\<lparr>user_id = uid, user_name = reg_name userData,
                        email = reg_email userData,
                        faceDescriptor = reg_faceDescriptor userData,
                        registeredAt = now\<rparr>])\<rparr>"
      from a(1) have us: "us = stored (users s0)" by (rule e(5))
      from a(2) have "reg_email userData \<notin> email ` set us"
        by (auto simp add: find_None_iff)
      with d us s1 show ?thesis by simp
    next
      fix us existing
      assume a: "l = Inr (Some us)" "find ?p us = Some existing"
        and s1: "s1 = s0\<lparr>users := Stored (update_first ?p
                      (\<lambda>_. existing\<lparr>user_name := reg_name userData,
                              faceDescriptor := reg_faceDescriptor userData,
                              registeredAt := now\<rparr>) us)\<rparr>"
      from a(1) have us: "us = stored (users s0)" by (rule e(5))
      have "map email (update_first ?p
            (\<lambda>_. existing\<lparr>user_name := reg_name userData,
                    faceDescriptor := reg_faceDescriptor userData, registeredAt := now\<rparr>) us)
          = map email us"
        by (rule map_update_first [OF a(2)]) simp
      with d us s1 show ?thesis by simp
    qed
  }
qed

lemma registerUser_step:
  "\<exists>s1 r. registerUser_try (initializeStorage s) (fst fresh) (snd fresh) userData = (s1, r)
     \<and> ((\<exists>user. r = Inr user \<and> registerUser s fresh fresh' userData = (s1, Inr user))
        \<or> (\<exists>e. r = Inl e \<and> registerUser s fresh fresh' userData =
              (if accepts_users (medium s)
                    [\<lparr>user_id = fst fresh', user_name = reg_name userData,
                      email = reg_email userData,
                      faceDescriptor = reg_faceDescriptor userData,
                      registeredAt = snd fresh'\<rparr>]
               then s1\<lparr>users := Stored
                      [\<lparr>user_id = fst fresh', user_name = reg_name userData,
                        email = reg_email userData,
                        faceDescriptor = reg_faceDescriptor userData,
                        registeredAt = snd fresh'\<rparr>]\<rparr>
               else s1,
               Inr \<lparr>user_id = fst fresh', user_name = reg_name userData,
                     email = reg_email userData,
                     faceDescriptor = reg_faceDescriptor userData,
                     registeredAt = snd fresh'\<rparr>)))"
proof -
  obtain s1 r
    where t: "registerUser_try (initializeStorage s) (fst fresh) (snd fresh) userData = (s1, r)"
    by (cases "registerUser_try (initializeStorage s) (fst fresh) (snd fresh) userData")
  have m: "medium s1 = medium s"
    using registerUser_try_effect(1) [OF t] by simp
  show ?thesis
  proof (cases r)
    case (Inl e)
    with t m show ?thesis
      by (simp add: registerUser_def Let_def setItem_USERS_def)
  next
    case (Inr user)
    with t show ?thesis
      by (simp add: registerUser_def)
  qed
qed

lemma registerUser_effect:
  shows "medium (fst (registerUser s fresh fresh' userData)) = medium s"
    and "attendance (fst (registerUser s fresh fresh' userData))
           = attendance (initializeStorage s)"
    and "users s \<noteq> NotArray \<Longrightarrow> users (fst (registerUser s fresh fresh' userData)) \<noteq> NotArray"
    and "distinct (map email (stored (users s))) \<Longrightarrow>
           distinct (map email (stored (users (fst (registerUser s fresh fresh' userData)))))"
    and "\<exists>user. snd (registerUser s fresh fresh' userData) = Inr user"
proof -
  from registerUser_step [of s fresh userData fresh']
  obtain s1 r
    where t: "registerUser_try (initializeStorage s) (fst fresh) (snd fresh) userData = (s1, r)"
      and c: "(\<exists>user. r = Inr user \<and> registerUser s fresh fresh' userData = (s1, Inr user))
        \<or> (\<exists>e. r = Inl e \<and> registerUser s fresh fresh' userData =
              (if accepts_users (medium s)
                    [\<lparr>user_id = fst fresh', user_name = reg_name userData,
                      email = reg_email userData,
                      faceDescriptor = reg_faceDescriptor userData,
                      registeredAt = snd fresh'\<rparr>]
               then s1\<lparr>users := Stored
                      [\<lparr>user_id = fst fresh', user_name = reg_name userData,
                        email = reg_email userData,
                        faceDescriptor = reg_faceDescriptor userData,
                        registeredAt = snd fresh'\<rparr>]\<rparr>
               else s1,
               Inr \<lparr>user_id = fst fresh', user_name = reg_name userData,
                     email = reg_email userData,
                     faceDescriptor = reg_faceDescriptor userData,
                     registeredAt = snd fresh'\<rparr>))"
    by blast
  note e = registerUser_try_effect [OF t]
  from c e(1) show "medium (fst (registerUser s fresh fresh' userData)) = medium s"
    by auto
  from c e(2) show "attendance (fst (registerUser s fresh fresh' userData))
           = attendance (initializeStorage s)"
    by auto
  from c show "\<exists>user. snd (registerUser s fresh fresh' userData) = Inr user"
    by auto
  {
    assume "users s \<noteq> NotArray"
    then have "users (initializeStorage s) \<noteq> NotArray" by simp
    then have "users s1 \<noteq> NotArray" by (rule e(3))
    with c show "users (fst (registerUser s fresh fresh' userData)) \<noteq> NotArray"
      by (auto split: if_splits)
  }
  {
    assume "distinct (map email (stored (users s)))"
    then have "distinct (map email (stored (users (initializeStorage s))))" by simp
    then have "distinct (map email (stored (users s1)))" by (rule e(4))
    with c show "distinct (map email (stored (users (fst (registerUser s fresh fresh' userData)))))"
      by (auto split: if_splits)
  }
qed

lemma registerUser_caught:
  assumes "registerUser_try (initializeStorage s) (fst fresh) (snd fresh) userData = (s1, Inl e)"
  shows "registerUser s fresh fresh' userData =
    (if accepts_users (medium s)
          [\<lparr>user_id = fst fresh', user_name = reg_name userData,
            email = reg_email userData, faceDescriptor = reg_faceDescriptor userData,
            registeredAt = snd fresh'\<rparr>]
     then s1\<lparr>users := Stored
            [\<lparr>user_id = fst fresh', user_name = reg_name userData,
              email = reg_email userData, faceDescriptor = reg_faceDescriptor userData,
              registeredAt = snd fresh'\<rparr>]\<rparr>
     else s1,
     Inr \<lparr>user_id = fst fresh', user_name = reg_name userData,
           email = reg_email userData, faceDescriptor = reg_faceDescriptor userData,
           registeredAt = snd fresh'\<rparr>)"
proof -
  have "medium s1 = medium s"
    using registerUser_try_effect(1) [OF assms] by simp
  with assms show ?thesis
    by (simp add: registerUser_def Let_def setItem_USERS_def)
qed

lemma registerUser_try_refused:
  assumes "users s = Stored us" and "medium s \<noteq> Unavailable"
    and "\<not> accepts_users (medium s)
          (case find (\<lambda>user. email user = reg_email userData) us of
             Some existingUser \<Rightarrow>
               update_first (\<lambda>user. email user = reg_email userData)
                 (\<lambda>_. existingUser\<lparr>user_name := reg_name userData,
                         faceDescriptor := reg_faceDescriptor userData,
                         registeredAt := now\<rparr>) us
           | None \<Rightarrow>
               us @ [\<lparr>user_id = uid, user_name = reg_name userData,
                      email = reg_email userData,
                      faceDescriptor = reg_faceDescriptor userData, registeredAt = now\<rparr>])"
  shows "registerUser_try (initializeStorage s) uid now userData
           = (initializeStorage s, Inl DOMException)"
proof -
  have u: "users (initializeStorage s) = Stored us" using assms(1) by simp
  have l: "load_users (initializeStorage s) = (initializeStorage s, Inr (Some us))"
    using u assms(2) by (simp add: load_users_def read_key_def getItem_def)
  show ?thesis
  proof (cases "find (\<lambda>user. email user = reg_email userData) us")
    case None
    with assms(3) show ?thesis
      unfolding registerUser_try_def l Let_def by (simp add: setItem_USERS_def)
  next
    case (Some existing)
    with assms(3) show ?thesis
      unfolding registerUser_try_def l Let_def by (simp add: setItem_USERS_def)
  qed
qed

lemma registerUser_try_NotArray:
  assumes "users s = NotArray" and "medium s \<noteq> Unavailable"
  shows "registerUser_try (initializeStorage s) uid now userData
           = (initializeStorage s, Inl TypeError)"
proof -
  from assms(1) have n: "users (initializeStorage s) = NotArray" by simp
  show ?thesis
    unfolding registerUser_try_def load_users_def read_key_def getItem_def n
    using assms(2) by simp
qed

lemma registerUser_try_Unavailable:
  assumes "medium s = Unavailable"
  shows "registerUser_try (initializeStorage s) uid now userData = (s, Inl DOMException)"
  using assms
  by (simp add: initializeStorage_no_probe registerUser_try_def load_users_def read_key_def
      getItem_def setItem_USERS_def)

lemma initializeStorage_idle:
  assumes "users s \<noteq> Absent" "users s \<noteq> Unparsable"
    and "attendance s \<noteq> Absent" "attendance s \<noteq> Unparsable"
  shows "initializeStorage s = s"
  using assms by (simp add: initializeStorage_def)

lemma initializeStorage_Absent_Working:
  "initializeStorage \<lparr>users = Absent, attendance = Absent, medium = Working\<rparr>
     = \<lparr>users = Stored [], attendance = Stored [], medium = Working\<rparr>"
  by (simp add: initializeStorage_def setItem_USERS_def setItem_ATTENDANCE_def)

text \<open>
  C7, as stated, fails. On a store whose medium refuses writes, the \<^verbatim>\<open>try\<close> block of
  \<^verbatim>\<open>registerUser\<close> throws (the write of the users list raises a \<^verbatim>\<open>DOMException\<close>), and
  \<^verbatim>\<open>registerUser\<close> nevertheless resolves to a user record that it made up and that is
  not in the store. On a working store whose users key holds a value that is not an array,
  the \<^verbatim>\<open>try\<close> block throws a \<^verbatim>\<open>TypeError\<close>, and \<^verbatim>\<open>registerUser\<close> overwrites the
  key with the list holding only the made-up record. On a store that holds Bob and whose
  quota takes a list of one user but not of two, registering Alice throws in the
  \<^verbatim>\<open>try\<close> block, and the fallback write replaces Bob by the made-up record.
\<close>

theorem C7_counterexample:
  "registerUser_try (initializeStorage ((example_storage [])\<lparr>medium := ReadOnly\<rparr>))
       ''id1'' 5 example_registration
     = ((example_storage [])\<lparr>medium := ReadOnly\<rparr>, Inl DOMException)
   \<and> registerUser ((example_storage [])\<lparr>medium := ReadOnly\<rparr>) (''id1'', 5) (''id2'', 6)
       example_registration
     = ((example_storage [])\<lparr>medium := ReadOnly\<rparr>,
        Inr \<lparr>user_id = ''id2'', user_name = ''Alice'', email = ''a@x.com'',
              faceDescriptor = [1, 0, 0], registeredAt = 6\<rparr>)
   \<and> registerUser_try (initializeStorage ((example_storage [])\<lparr>users := NotArray\<rparr>))
       ''id1'' 5 example_registration
     = ((example_storage [])\<lparr>users := NotArray\<rparr>, Inl TypeError)
   \<and> registerUser ((example_storage [])\<lparr>users := NotArray\<rparr>) (''id1'', 5) (''id2'', 6)
       example_registration
     = ((example_storage [])\<lparr>users := Stored
            [\<lparr>user_id = ''id2'', user_name = ''Alice'', email = ''a@x.com'',
              faceDescriptor = [1, 0, 0], registeredAt = 6\<rparr>]\<rparr>,
        Inr \<lparr>user_id = ''id2'', user_name = ''Alice'', email = ''a@x.com'',
              faceDescriptor = [1, 0, 0], registeredAt = 6\<rparr>)
   \<and> users ((example_storage [])\<lparr>medium := Limited (\<lambda>xs. length xs \<le> 1) (\<lambda>rs. True)\<rparr>)
     = Stored [example_user]
   \<and> registerUser_try
       (initializeStorage
          ((example_storage [])\<lparr>medium := Limited (\<lambda>xs. length xs \<le> 1) (\<lambda>rs. True)\<rparr>))
       ''id1'' 5 example_registration
     = ((example_storage [])\<lparr>medium := Limited (\<lambda>xs. length xs \<le> 1) (\<lambda>rs. True)\<rparr>,
        Inl DOMException)
   \<and> registerUser
       ((example_storage [])\<lparr>medium := Limited (\<lambda>xs. length xs \<le> 1) (\<lambda>rs. True)\<rparr>)
       (''id1'', 5) (''id2'', 6) example_registration
     = ((example_storage [])\<lparr>medium := Limited (\<lambda>xs. length xs \<le> 1) (\<lambda>rs. True),
           users := Stored
            [\<lparr>user_id = ''id2'', user_name = ''Alice'', email = ''a@x.com'',
              faceDescriptor = [1, 0, 0], registeredAt = 6\<rparr>]\<rparr>,
        Inr \<lparr>user_id = ''id2'', user_name = ''Alice'', email = ''a@x.com'',
              faceDescriptor = [1, 0, 0], registeredAt = 6\<rparr>)"
proof -
  let ?fb = "\<lparr>user_id = ''id2'', user_name = ''Alice'', email = ''a@x.com'',
              faceDescriptor = [1, 0, 0], registeredAt = 6\<rparr>"
  let ?R = "(example_storage [])\<lparr>medium := ReadOnly\<rparr>"
  let ?N = "(example_storage [])\<lparr>users := NotArray\<rparr>"
  let ?Q = "(example_storage [])\<lparr>medium := Limited (\<lambda>xs. length xs \<le> 1) (\<lambda>rs. True)\<rparr>"
  have iR: "initializeStorage ?R = ?R" and iN: "initializeStorage ?N = ?N"
    and iQ: "initializeStorage ?Q = ?Q"
    by (simp_all add: initializeStorage_idle example_storage_def)
  have tR: "registerUser_try ?R ''id1'' 5 example_registration = (?R, Inl DOMException)"
    using registerUser_try_refused
      [where s = ?R and us = "[example_user]" and userData = example_registration
         and uid = "''id1''" and now = 5]
    unfolding iR by (simp add: example_storage_def example_user_def example_registration_def)
  have tN: "registerUser_try ?N ''id1'' 5 example_registration = (?N, Inl TypeError)"
    using registerUser_try_NotArray
      [where s = ?N and userData = example_registration and uid = "''id1''" and now = 5]
    unfolding iN by (simp add: example_storage_def)
  have tQ: "registerUser_try ?Q ''id1'' 5 example_registration = (?Q, Inl DOMException)"
    using registerUser_try_refused
      [where s = ?Q and us = "[example_user]" and userData = example_registration
         and uid = "''id1''" and now = 5]
    unfolding iQ by (simp add: example_storage_def example_user_def example_registration_def)
  have rR: "registerUser ?R (''id1'', 5) (''id2'', 6) example_registration = (?R, Inr ?fb)"
    using registerUser_caught [where s = ?R and fresh = "(''id1'', 5)" and fresh' = "(''id2'', 6)"
        and userData = example_registration and ?s1.0 = ?R and e = DOMException] tR
    unfolding iR by (simp add: example_registration_def)
  have rN: "registerUser ?N (''id1'', 5) (''id2'', 6) example_registration
      = ((example_storage [])\<lparr>users := Stored [?fb]\<rparr>, Inr ?fb)"
    using registerUser_caught [where s = ?N and fresh = "(''id1'', 5)" and fresh' = "(''id2'', 6)"
        and userData = example_registration and ?s1.0 = ?N and e = TypeError] tN
    unfolding iN by (simp add: example_registration_def example_storage_def)
  have rQ: "registerUser ?Q (''id1'', 5) (''id2'', 6) example_registration
      = ((example_storage [])\<lparr>medium := Limited (\<lambda>xs. length xs \<le> 1) (\<lambda>rs. True),
            users := Stored [?fb]\<rparr>, Inr ?fb)"
    using registerUser_caught [where s = ?Q and fresh = "(''id1'', 5)" and fresh' = "(''id2'', 6)"
        and userData = example_registration and ?s1.0 = ?Q and e = DOMException] tQ
    unfolding iQ by (simp add: example_registration_def example_storage_def)
  have uQ: "users ?Q = Stored [example_user]"
    by (simp add: example_storage_def)
  show ?thesis
    unfolding iR iN iQ using tR tN tQ rR rN rQ uQ by simp
qed

text \<open>
  C7, amended: \<^verbatim>\<open>registerUser\<close> never rejects. When its \<^verbatim>\<open>try\<close> block throws (a read
  or a write of the store fails, or the users key holds a value that is not an array), the
  failure is caught, not propagated: the call resolves to a fallback record built from the
  input with a newly generated id and the current time, and it writes the list holding only
  that record to the users key. When the medium takes this write, whatever the users key
  held, every stored user included, is replaced by the fallback record; when it refuses,
  the store stays as the \<^verbatim>\<open>try\<close> block left it. In particular this is so when the
  store holds a list of users and the write of the new list is refused, when the users key
  holds no array, and when the store cannot be accessed.
\<close>

theorem C7_fallback_on_storage_failure:
  "let fallbackUser = \<lparr>user_id = fst fresh', user_name = reg_name userData,
                        email = reg_email userData,
                        faceDescriptor = reg_faceDescriptor userData,
                        registeredAt = snd fresh'\<rparr>;
       overwritten = (\<lambda>s1. if accepts_users (medium s) [fallbackUser]
                            then s1\<lparr>users := Stored [fallbackUser]\<rparr> else s1)
   in (\<exists>user. snd (registerUser s fresh fresh' userData) = Inr user)
    \<and> (registerUser_try (initializeStorage s) (fst fresh) (snd fresh) userData = (s1, Inl e)
          \<longrightarrow> registerUser s fresh fresh' userData = (overwritten s1, Inr fallbackUser))
    \<and> (users s = Stored us \<and> medium s \<noteq> Unavailable
        \<and> \<not> accepts_users (medium s)
            (case find (\<lambda>user. email user = reg_email userData) us of
               Some existingUser \<Rightarrow>
                 update_first (\<lambda>user. email user = reg_email userData)
                   (\<lambda>_. existingUser\<lparr>user_name := reg_name userData,
                           faceDescriptor := reg_faceDescriptor userData,
                           registeredAt := snd fresh\<rparr>) us
             | None \<Rightarrow>
                 us @ [\<lparr>user_id = fst fresh, user_name = reg_name userData,
                        email = reg_email userData,
                        faceDescriptor = reg_faceDescriptor userData,
                        registeredAt = snd fresh\<rparr>])
          \<longrightarrow> registerUser s fresh fresh' userData
                = (overwritten (initializeStorage s), Inr fallbackUser))
    \<and> (users s = NotArray \<and> medium s \<noteq> Unavailable
          \<longrightarrow> registerUser s fresh fresh' userData
                = (overwritten (initializeStorage s), Inr fallbackUser))
    \<and> (medium s = Unavailable
          \<longrightarrow> registerUser s fresh fresh' userData = (s, Inr fallbackUser))"
  unfolding Let_def
proof (intro conjI impI)
  show "\<exists>user. snd (registerUser s fresh fresh' userData) = Inr user"
    by (rule registerUser_effect(5))
next
  assume "registerUser_try (initializeStorage s) (fst fresh) (snd fresh) userData = (s1, Inl e)"
  then show "registerUser s fresh fresh' userData =
    (if accepts_users (medium s)
          [\<lparr>user_id = fst fresh', user_name = reg_name userData,
            email = reg_email userData, faceDescriptor = reg_faceDescriptor userData,
            registeredAt = snd fresh'\<rparr>]
     then s1\<lparr>users := Stored
            [\<lparr>user_id = fst fresh', user_name = reg_name userData,
              email = reg_email userData, faceDescriptor = reg_faceDescriptor userData,
              registeredAt = snd fresh'\<rparr>]\<rparr>
     else s1,
     Inr \<lparr>user_id = fst fresh', user_name = reg_name userData,
           email = reg_email userData, faceDescriptor = reg_faceDescriptor userData,
           registeredAt = snd fresh'\<rparr>)"
    by (rule registerUser_caught)
next
  assume h: "users s = Stored us \<and> medium s \<noteq> Unavailable
        \<and> \<not> accepts_users (medium s)
            (case find (\<lambda>user. email user = reg_email userData) us of
               Some existingUser \<Rightarrow>
                 update_first (\<lambda>user. email user = reg_email userData)
                   (\<lambda>_. existingUser\<lparr>user_name := reg_name userData,
                           faceDescriptor := reg_faceDescriptor userData,
                           registeredAt := snd fresh\<rparr>) us
             | None \<Rightarrow>
                 us @ [\<lparr>user_id = fst fresh, user_name = reg_name userData,
                        email = reg_email userData,
                        faceDescriptor = reg_faceDescriptor userData,
                        registeredAt = snd fresh\<rparr>])"
  then have "registerUser_try (initializeStorage s) (fst fresh) (snd fresh) userData
           = (initializeStorage s, Inl DOMException)"
    using registerUser_try_refused
      [where s = s and us = us and userData = userData and now = "snd fresh" and uid = "fst fresh"] by blast
  then show "registerUser s fresh fresh' userData =
    (if accepts_users (medium s)
          [\<lparr>user_id = fst fresh', user_name = reg_name userData,
            email = reg_email userData, faceDescriptor = reg_faceDescriptor userData,
            registeredAt = snd fresh'\<rparr>]
     then (initializeStorage s)\<lparr>users := Stored
            [\<lparr>user_id = fst fresh', user_name = reg_name userData,
              email = reg_email userData, faceDescriptor = reg_faceDescriptor userData,
              registeredAt = snd fresh'\<rparr>]\<rparr>
     else initializeStorage s,
     Inr \<lparr>user_id = fst fresh', user_name = reg_name userData,
           email = reg_email userData, faceDescriptor = reg_faceDescriptor userData,
           registeredAt = snd fresh'\<rparr>)"
    by (rule registerUser_caught)
next
  assume "users s = NotArray \<and> medium s \<noteq> Unavailable"
  then have "registerUser_try (initializeStorage s) (fst fresh) (snd fresh) userData
           = (initializeStorage s, Inl TypeError)"
    using registerUser_try_NotArray
      [where s = s and userData = userData and now = "snd fresh" and uid = "fst fresh"] by blast
  then show "registerUser s fresh fresh' userData =
    (if accepts_users (medium s)
          [\<lparr>user_id = fst fresh', user_name = reg_name userData,
            email = reg_email userData, faceDescriptor = reg_faceDescriptor userData,
            registeredAt = snd fresh'\<rparr>]
     then (initializeStorage s)\<lparr>users := Stored
            [\<lparr>user_id = fst fresh', user_name = reg_name userData,
              email = reg_email userData, faceDescriptor = reg_faceDescriptor userData,
              registeredAt = snd fresh'\<rparr>]\<rparr>
     else initializeStorage s,
     Inr \<lparr>user_id = fst fresh', user_name = reg_name userData,
           email = reg_email userData, faceDescriptor = reg_faceDescriptor userData,
           registeredAt = snd fresh'\<rparr>)"
    by (rule registerUser_caught)
next
  assume u: "medium s = Unavailable"
  then have "registerUser_try (initializeStorage s) (fst fresh) (snd fresh) userData
           = (s, Inl DOMException)"
    by (rule registerUser_try_Unavailable)
  from registerUser_caught [OF this, of fresh'] u
  show "registerUser s fresh fresh' userData =
    (s, Inr \<lparr>user_id = fst fresh', user_name = reg_name userData,
              email = reg_email userData, faceDescriptor = reg_faceDescriptor userData,
              registeredAt = snd fresh'\<rparr>)"
    by simp
qed

theorem C7_fallback_on_storage_failure_witness:
  "registerUser_try
       (initializeStorage
          ((example_storage [])\<lparr>medium := Limited (\<lambda>xs. length xs \<le> 1) (\<lambda>rs. True)\<rparr>))
       (fst (''id1'', 5)) (snd (''id1'', 5)) example_registration
     = ((example_storage [])\<lparr>medium := Limited (\<lambda>xs. length xs \<le> 1) (\<lambda>rs. True)\<rparr>,
        Inl DOMException)
   \<and> users ((example_storage [])\<lparr>medium := Limited (\<lambda>xs. length xs \<le> 1) (\<lambda>rs. True)\<rparr>)
       = Stored [example_user]
   \<and> medium ((example_storage [])\<lparr>medium := Limited (\<lambda>xs. length xs \<le> 1) (\<lambda>rs. True)\<rparr>)
       \<noteq> Unavailable
   \<and> \<not> accepts_users (Limited (\<lambda>xs. length xs \<le> 1) (\<lambda>rs. True))
         [example_user,
          \<lparr>user_id = ''id1'', user_name = ''Alice'', email = ''a@x.com'',
            faceDescriptor = [1, 0, 0], registeredAt = 5\<rparr>]
   \<and> registerUser
       ((example_storage [])\<lparr>medium := Limited (\<lambda>xs. length xs \<le> 1) (\<lambda>rs. True)\<rparr>)
       (''id1'', 5) (''id2'', 6) example_registration
     = ((example_storage [])\<lparr>medium := Limited (\<lambda>xs. length xs \<le> 1) (\<lambda>rs. True),
           users := Stored
            [\<lparr>user_id = ''id2'', user_name = ''Alice'', email = ''a@x.com'',
              faceDescriptor = [1, 0, 0], registeredAt = 6\<rparr>]\<rparr>,
        Inr \<lparr>user_id = ''id2'', user_name = ''Alice'', email = ''a@x.com'',
              faceDescriptor = [1, 0, 0], registeredAt = 6\<rparr>)
   \<and> users ((example_storage [])\<lparr>users := NotArray\<rparr>) = NotArray
   \<and> medium ((example_storage [])\<lparr>users := NotArray\<rparr>) \<noteq> Unavailable
   \<and> registerUser ((example_storage [])\<lparr>users := NotArray\<rparr>) (''id1'', 5) (''id2'', 6)
       example_registration
     = ((example_storage [])\<lparr>users := Stored
            [\<lparr>user_id = ''id2'', user_name = ''Alice'', email = ''a@x.com'',
              faceDescriptor = [1, 0, 0], registeredAt = 6\<rparr>]\<rparr>,
        Inr \<lparr>user_id = ''id2'', user_name = ''Alice'', email = ''a@x.com'',
              faceDescriptor = [1, 0, 0], registeredAt = 6\<rparr>)
   \<and> medium ((example_storage [])\<lparr>medium := Unavailable\<rparr>) = Unavailable
   \<and> registerUser ((example_storage [])\<lparr>medium := Unavailable\<rparr>) (''id1'', 5) (''id2'', 6)
       example_registration
     = ((example_storage [])\<lparr>medium := Unavailable\<rparr>,
        Inr \<lparr>user_id = ''id2'', user_name = ''Alice'', email = ''a@x.com'',
              faceDescriptor = [1, 0, 0], registeredAt = 6\<rparr>)"
proof -
  let ?N = "(example_storage [])\<lparr>users := NotArray\<rparr>"
  let ?Q = "(example_storage [])\<lparr>medium := Limited (\<lambda>xs. length xs \<le> 1) (\<lambda>rs. True)\<rparr>"
  let ?U = "(example_storage [])\<lparr>medium := Unavailable\<rparr>"
  have i: "initializeStorage ?N = ?N" "initializeStorage ?Q = ?Q" "initializeStorage ?U = ?U"
    by (simp_all add: initializeStorage_idle example_storage_def)
  have tQ: "registerUser_try ?Q ''id1'' 5 example_registration = (?Q, Inl DOMException)"
    using registerUser_try_refused
      [where s = ?Q and us = "[example_user]" and userData = example_registration
         and uid = "''id1''" and now = 5]
    unfolding i by (simp add: example_storage_def example_user_def example_registration_def)
  show ?thesis
    using C7_fallback_on_storage_failure
      [where s = ?Q and fresh = "(''id1'', 5)" and fresh' = "(''id2'', 6)"
         and userData = example_registration and us = "[example_user]"
         and ?s1.0 = ?Q and e = DOMException]
      C7_fallback_on_storage_failure
      [where s = ?N and fresh = "(''id1'', 5)" and fresh' = "(''id2'', 6)"
         and userData = example_registration]
      C7_fallback_on_storage_failure
      [where s = ?U and fresh = "(''id1'', 5)" and fresh' = "(''id2'', 6)"
         and userData = example_registration]
      tQ
    unfolding i Let_def
    by (simp add: example_storage_def example_user_def example_registration_def)
qed

lemma registerUser_Working_again:
  assumes "medium s = Working" "users s \<noteq> NotArray"
  shows "medium (fst (registerUser s fresh fresh' userData)) = Working"
    and "users (fst (registerUser s fresh fresh' userData)) \<noteq> NotArray"
  using assms by (simp_all add: registerUser_Working split: option.splits)

lemma registerUser_first_then_unique:
  assumes w: "medium s = Working" "users s \<noteq> NotArray"
    and one: "length (filter (\<lambda>u. email u = reg_email userData) (stored (users s))) \<le> 1"
  shows "\<exists>user. snd (registerUser s fresh fresh' userData) = Inr user
      \<and> email user = reg_email userData
      \<and> find (\<lambda>u. email u = reg_email userData)
            (stored (users (fst (registerUser s fresh fresh' userData)))) = Some user
      \<and> filter (\<lambda>u. email u = reg_email userData)
            (stored (users (fst (registerUser s fresh fresh' userData)))) = [user]"
proof (cases "find (\<lambda>u. email u = reg_email userData) (stored (users s))")
  case None
  then have "filter (\<lambda>u. email u = reg_email userData) (stored (users s)) = []"
    by (simp add: find_None_filter)
  with None show ?thesis
    by (simp add: registerUser_Working [OF w] find_snoc)
next
  case (Some existing)
  let ?p = "\<lambda>u. email u = reg_email userData"
  let ?upd = "existing\<lparr>user_name := reg_name userData,
                faceDescriptor := reg_faceDescriptor userData, registeredAt := snd fresh\<rparr>"
  from Some have e: "email existing = reg_email userData"
    by (auto simp add: find_Some_iff)
  then have p: "?p ?upd" by simp
  from Some have "filter ?p (stored (users s)) \<noteq> []"
    by (simp add: find_None_filter [symmetric])
  with one have "tl (filter ?p (stored (users s))) = []"
    by (cases "filter ?p (stored (users s))") auto
  then have f: "filter ?p (update_first ?p (\<lambda>_. ?upd) (stored (users s))) = [?upd]"
    using filter_update_first [OF Some p] by simp
  have g: "find ?p (update_first ?p (\<lambda>_. ?upd) (stored (users s))) = Some ?upd"
    using find_update_first [OF Some p] .
  from Some e f g show ?thesis
    by (simp add: registerUser_Working [OF w])
qed

lemma stored_users_markAttendance [simp]:
  "stored (users (fst (markAttendance s uid rid now now'))) = stored (users s)"
  using markAttendance_state [of s uid rid now now'] by auto

lemma reachable_distinct_emails: "reachable s \<Longrightarrow> distinct (map email (stored (users s)))"
proof (induction rule: reachable.induct)
  case (empty m)
  show ?case by simp
next
  case (medium s m)
  then show ?case by simp
next
  case (register s fresh fresh' userData)
  from register.IH show ?case by (rule registerUser_effect(4))
next
  case (mark s uid rid now now')
  then show ?case by simp
next
  case (status s uid now)
  then show ?case by simp
next
  case (records s)
  then show ?case by simp
qed

lemma distinct_emails_at_most_one:
  "distinct (map email us) \<Longrightarrow> length (filter (\<lambda>u. email u = e) us) \<le> 1"
proof (induction us)
  case Nil
  then show ?case by simp
next
  case (Cons u us)
  show ?case
  proof (cases "email u = e")
    case True
    from Cons.prems have "email u \<notin> email ` set us" by simp
    with True have "\<forall>v \<in> set us. email v \<noteq> e" by blast
    then have "filter (\<lambda>u. email u = e) us = []" by (simp add: filter_empty_conv)
    with True show ?thesis by simp
  next
    case False
    with Cons show ?thesis by simp
  qed
qed

lemma not_NotArray_markAttendance:
  assumes "users s \<noteq> NotArray \<and> attendance s \<noteq> NotArray"
  shows "users (fst (markAttendance s uid rid now now')) \<noteq> NotArray
       \<and> attendance (fst (markAttendance s uid rid now now')) \<noteq> NotArray"
  using markAttendance_state [of s uid rid now now'] assms by auto

lemma not_NotArray_registerUser:
  assumes "users s \<noteq> NotArray \<and> attendance s \<noteq> NotArray"
  shows "users (fst (registerUser s fresh fresh' userData)) \<noteq> NotArray
       \<and> attendance (fst (registerUser s fresh fresh' userData)) \<noteq> NotArray"
  using assms registerUser_effect(2,3) [of s fresh fresh' userData] by simp

lemma reachable_arrays:
  "reachable s \<Longrightarrow> users s \<noteq> NotArray \<and> attendance s \<noteq> NotArray"
proof (induction rule: reachable.induct)
  case (empty m)
  show ?case by simp
next
  case (medium s m)
  then show ?case by simp
next
  case (register s fresh fresh' userData)
  from register.IH show ?case by (rule not_NotArray_registerUser)
next
  case (mark s uid rid now now')
  from mark.IH show ?case by (rule not_NotArray_markAttendance)
next
  case (status s uid now)
  then show ?case by simp
next
  case (records s)
  then show ?case by simp
qed

lemma registerUser_on_empty:
  "registerUser \<lparr>users = Absent, attendance = Absent, medium = Working\<rparr> fresh fresh'
       userData
     = (\<lparr>users = Stored [\<lparr>user_id = fst fresh, user_name = reg_name userData,
                          email = reg_email userData,
                          faceDescriptor = reg_faceDescriptor userData,
                          registeredAt = snd fresh\<rparr>],
          attendance = Stored [], medium = Working\<rparr>,
        Inr \<lparr>user_id = fst fresh, user_name = reg_name userData,
              email = reg_email userData, faceDescriptor = reg_faceDescriptor userData,
              registeredAt = snd fresh\<rparr>)"
  by (simp add: registerUser_Working initializeStorage_Absent_Working)

text \<open>
  C3: in a working store, \<^verbatim>\<open>registerUser\<close> with an e-mail address that a stored user
  already has replaces the name, descriptor and registration time of (the first) such
  user in place, keeps every other field, leaves the number of users unchanged and returns
  the updated record; with a new e-mail address it appends a user with the newly
  generated id and returns it. After two registrations with the same e-mail address, in a
  store that held at most one user with it, exactly one stored user has that address: the
  record of the first call with the name, descriptor and time of the second. Every store
  reachable from an empty one holds at most one user with any given e-mail address.
\<close>

theorem C3_register_upsert:
  assumes "medium s = Working" and "users s \<noteq> NotArray"
  shows "(case find (\<lambda>u. email u = reg_email userData) (stored (users s)) of
            Some existingUser \<Rightarrow>
              snd (registerUser s fresh fresh' userData)
                = Inr (existingUser\<lparr>user_name := reg_name userData,
                         faceDescriptor := reg_faceDescriptor userData,
                         registeredAt := snd fresh\<rparr>)
              \<and> stored (users (fst (registerUser s fresh fresh' userData)))
                  = update_first (\<lambda>u. email u = reg_email userData)
                      (\<lambda>_. existingUser\<lparr>user_name := reg_name userData,
                              faceDescriptor := reg_faceDescriptor userData,
                              registeredAt := snd fresh\<rparr>) (stored (users s))
              \<and> length (stored (users (fst (registerUser s fresh fresh' userData))))
                  = length (stored (users s))
          | None \<Rightarrow>
              snd (registerUser s fresh fresh' userData)
                = Inr \<lparr>user_id = fst fresh, user_name = reg_name userData,
                        email = reg_email userData,
                        faceDescriptor = reg_faceDescriptor userData,
                        registeredAt = snd fresh\<rparr>
              \<and> stored (users (fst (registerUser s fresh fresh' userData)))
                  = stored (users s) @
                      [\<lparr>user_id = fst fresh, user_name = reg_name userData,
                        email = reg_email userData,
                        faceDescriptor = reg_faceDescriptor userData,
                        registeredAt = snd fresh\<rparr>])
     \<and> (length (filter (\<lambda>u. email u = reg_email userData) (stored (users s))) \<le> 1
          \<and> reg_email userData2 = reg_email userData \<longrightarrow>
        (\<exists>user1 user2.
            snd (registerUser s fresh fresh' userData) = Inr user1
          \<and> snd (registerUser (fst (registerUser s fresh fresh' userData)) fresh2 fresh2'
                   userData2) = Inr user2
          \<and> user2 = user1\<lparr>user_name := reg_name userData2,
                             faceDescriptor := reg_faceDescriptor userData2,
                             registeredAt := snd fresh2\<rparr>
          \<and> filter (\<lambda>u. email u = reg_email userData)
               (stored (users (fst (registerUser (fst (registerUser s fresh fresh' userData))
                  fresh2 fresh2' userData2)))) = [user2]
          \<and> length (stored (users (fst (registerUser (fst (registerUser s fresh fresh'
                  userData)) fresh2 fresh2' userData2))))
              = length (stored (users (fst (registerUser s fresh fresh' userData))))))
     \<and> (reachable s \<longrightarrow>
          length (filter (\<lambda>u. email u = reg_email userData) (stored (users s))) \<le> 1)"
proof (intro conjI impI)
  show "case find (\<lambda>u. email u = reg_email userData) (stored (users s)) of
            Some existingUser \<Rightarrow>
              snd (registerUser s fresh fresh' userData)
                = Inr (existingUser\<lparr>user_name := reg_name userData,
                         faceDescriptor := reg_faceDescriptor userData,
                         registeredAt := snd fresh\<rparr>)
              \<and> stored (users (fst (registerUser s fresh fresh' userData)))
                  = update_first (\<lambda>u. email u = reg_email userData)
                      (\<lambda>_. existingUser\<lparr>user_name := reg_name userData,
                              faceDescriptor := reg_faceDescriptor userData,
                              registeredAt := snd fresh\<rparr>) (stored (users s))
              \<and> length (stored (users (fst (registerUser s fresh fresh' userData))))
                  = length (stored (users s))
          | None \<Rightarrow>
              snd (registerUser s fresh fresh' userData)
                = Inr \<lparr>user_id = fst fresh, user_name = reg_name userData,
                        email = reg_email userData,
                        faceDescriptor = reg_faceDescriptor userData,
                        registeredAt = snd fresh\<rparr>
              \<and> stored (users (fst (registerUser s fresh fresh' userData)))
                  = stored (users s) @
                      [\<lparr>user_id = fst fresh, user_name = reg_name userData,
                        email = reg_email userData,
                        faceDescriptor = reg_faceDescriptor userData,
                        registeredAt = snd fresh\<rparr>]"
    by (simp add: registerUser_Working [OF assms] split: option.splits)
next
  assume h: "length (filter (\<lambda>u. email u = reg_email userData) (stored (users s))) \<le> 1
          \<and> reg_email userData2 = reg_email userData"
  let ?s1 = "fst (registerUser s fresh fresh' userData)"
  let ?p = "\<lambda>u. email u = reg_email userData"
  from h have one: "length (filter ?p (stored (users s))) \<le> 1"
    and same: "reg_email userData2 = reg_email userData" by simp_all
  from registerUser_first_then_unique [OF assms one, of fresh fresh']
  obtain user1 where r1: "snd (registerUser s fresh fresh' userData) = Inr user1"
    and e1: "email user1 = reg_email userData"
    and f1: "find ?p (stored (users ?s1)) = Some user1"
    and u1: "filter ?p (stored (users ?s1)) = [user1]"
    by blast
  have w1: "medium ?s1 = Working" "users ?s1 \<noteq> NotArray"
    by (rule registerUser_Working_again [OF assms])+
  let ?user2 = "user1\<lparr>user_name := reg_name userData2,
                  faceDescriptor := reg_faceDescriptor userData2, registeredAt := snd fresh2\<rparr>"
  have p2: "?p ?user2" using e1 by simp
  have r2: "registerUser ?s1 fresh2 fresh2' userData2 =
      ((initializeStorage ?s1)\<lparr>users := Stored (update_first ?p (\<lambda>_. ?user2)
          (stored (users ?s1)))\<rparr>, Inr ?user2)"
    using f1 same by (simp add: registerUser_Working [OF w1])
  have "filter ?p (update_first ?p (\<lambda>_. ?user2) (stored (users ?s1))) = [?user2]"
    using filter_update_first [OF f1 p2] u1 by simp
  with r1 r2 show "\<exists>user1 user2.
            snd (registerUser s fresh fresh' userData) = Inr user1
          \<and> snd (registerUser (fst (registerUser s fresh fresh' userData)) fresh2 fresh2'
                   userData2) = Inr user2
          \<and> user2 = user1\<lparr>user_name := reg_name userData2,
                             faceDescriptor := reg_faceDescriptor userData2,
                             registeredAt := snd fresh2\<rparr>
          \<and> filter (\<lambda>u. email u = reg_email userData)
               (stored (users (fst (registerUser (fst (registerUser s fresh fresh' userData))
                  fresh2 fresh2' userData2)))) = [user2]
          \<and> length (stored (users (fst (registerUser (fst (registerUser s fresh fresh'
                  userData)) fresh2 fresh2' userData2))))
              = length (stored (users (fst (registerUser s fresh fresh' userData))))"
    by simp
next
  assume "reachable s"
  then have "distinct (map email (stored (users s)))"
    by (rule reachable_distinct_emails)
  then show "length (filter (\<lambda>u. email u = reg_email userData) (stored (users s))) \<le> 1"
    by (rule distinct_emails_at_most_one)
qed

theorem C3_register_upsert_witness:
  "reachable \<lparr>users = Absent, attendance = Absent, medium = Working\<rparr>
   \<and> medium \<lparr>users = Absent, attendance = Absent, medium = Working\<rparr> = Working
   \<and> users \<lparr>users = Absent, attendance = Absent, medium = Working\<rparr> \<noteq> NotArray
   \<and> length (filter (\<lambda>u. email u = reg_email example_registration)
        (stored (users \<lparr>users = Absent, attendance = Absent, medium = Working\<rparr>))) \<le> 1
   \<and> reg_email \<lparr>reg_name = ''Alice B'', reg_email = ''a@x.com'',
                  reg_faceDescriptor = [1, 0, 1 / 10]\<rparr> = reg_email example_registration
   \<and> registerUser \<lparr>users = Absent, attendance = Absent, medium = Working\<rparr>
        (''id1'', 5) (''id2'', 6) example_registration
     = (\<lparr>users = Stored [\<lparr>user_id = ''id1'', user_name = ''Alice'', email = ''a@x.com'',
                            faceDescriptor = [1, 0, 0], registeredAt = 5\<rparr>],
          attendance = Stored [], medium = Working\<rparr>,
        Inr \<lparr>user_id = ''id1'', user_name = ''Alice'', email = ''a@x.com'',
              faceDescriptor = [1, 0, 0], registeredAt = 5\<rparr>)
   \<and> registerUser
        (fst (registerUser \<lparr>users = Absent, attendance = Absent, medium = Working\<rparr>
                (''id1'', 5) (''id2'', 6) example_registration))
        (''id3'', 7) (''id4'', 8)
        \<lparr>reg_name = ''Alice B'', reg_email = ''a@x.com'', reg_faceDescriptor = [1, 0, 1 / 10]\<rparr>
     = (\<lparr>users = Stored [\<lparr>user_id = ''id1'', user_name = ''Alice B'', email = ''a@x.com'',
                            faceDescriptor = [1, 0, 1 / 10], registeredAt = 7\<rparr>],
          attendance = Stored [], medium = Working\<rparr>,
        Inr \<lparr>user_id = ''id1'', user_name = ''Alice B'', email = ''a@x.com'',
              faceDescriptor = [1, 0, 1 / 10], registeredAt = 7\<rparr>)"
proof -
  let ?s1 = "\<lparr>users = Stored [\<lparr>user_id = ''id1'', user_name = ''Alice'', email = ''a@x.com'',
                            faceDescriptor = [1, 0, 0], registeredAt = 5\<rparr>],
          attendance = Stored [], medium = Working\<rparr>"
  have first: "registerUser \<lparr>users = Absent, attendance = Absent, medium = Working\<rparr>
        (''id1'', 5) (''id2'', 6) example_registration
     = (?s1, Inr \<lparr>user_id = ''id1'', user_name = ''Alice'', email = ''a@x.com'',
              faceDescriptor = [1, 0, 0], registeredAt = 5\<rparr>)"
    by (simp add: registerUser_on_empty example_registration_def)
  have init: "initializeStorage ?s1 = ?s1"
    by (simp add: initializeStorage_idle)
  have second: "registerUser ?s1 (''id3'', 7) (''id4'', 8)
        \<lparr>reg_name = ''Alice B'', reg_email = ''a@x.com'', reg_faceDescriptor = [1, 0, 1 / 10]\<rparr>
     = (\<lparr>users = Stored [\<lparr>user_id = ''id1'', user_name = ''Alice B'', email = ''a@x.com'',
                            faceDescriptor = [1, 0, 1 / 10], registeredAt = 7\<rparr>],
          attendance = Stored [], medium = Working\<rparr>,
        Inr \<lparr>user_id = ''id1'', user_name = ''Alice B'', email = ''a@x.com'',
              faceDescriptor = [1, 0, 1 / 10], registeredAt = 7\<rparr>)"
    by (simp add: registerUser_Working init)
  show ?thesis
    using C3_register_upsert
      [where s = "\<lparr>users = Absent, attendance = Absent, medium = Working\<rparr>"
         and userData = example_registration
         and fresh = "(''id1'', 5)" and fresh' = "(''id2'', 6)"
         and ?userData2.0 = "\<lparr>reg_name = ''Alice B'', reg_email = ''a@x.com'',
                               reg_faceDescriptor = [1, 0, 1 / 10]\<rparr>"
         and ?fresh2.0 = "(''id3'', 7)" and fresh2' = "(''id4'', 8)"]
      reachable.empty [of Working]
      first second
    unfolding first fst_conv
    by (simp add: example_registration_def)
qed

section \<open>One attendance record per user and day\<close>

text \<open>
  C1: in every reachable store there is at most one attendance record for each pair of
  user and calendar date, and both keys hold arrays (or nothing yet). In a working store
  that satisfies this and holds the user, two
  calls of \<^verbatim>\<open>markAttendance\<close> whose clock readings fall on the same calendar date
  both succeed with the same record, the second call leaves the store as the first left
  it, and the store then holds exactly that one record for the user and date.
\<close>

theorem C1_one_event_per_user_and_day:
  "(reachable s \<longrightarrow>
      one_per_day (stored (attendance s)) \<and> users s \<noteq> NotArray \<and> attendance s \<noteq> NotArray)
   \<and> (medium s = Working \<and> users s \<noteq> NotArray \<and> attendance s \<noteq> NotArray
        \<and> find (\<lambda>u. user_id u = uid) (stored (users s)) = Some user
        \<and> toISODate now2 = toISODate now1 \<and> one_per_day (stored (attendance s)) \<longrightarrow>
      (\<exists>e. snd (markAttendance s uid rid1 now1 now1') = Inr e
         \<and> markAttendance (fst (markAttendance s uid rid1 now1 now1')) uid rid2 now2 now2'
             = (fst (markAttendance s uid rid1 now1 now1'), Inr e)
         \<and> filter (\<lambda>r. userId r = uid \<and> date r = toISODate now1)
             (stored (attendance (fst (markAttendance s uid rid1 now1 now1')))) = [e]))"
proof (intro conjI impI)
  assume "reachable s"
  then show "one_per_day (stored (attendance s))" by (rule reachable_one_per_day)
next
  assume "reachable s"
  then show "users s \<noteq> NotArray" by (simp add: reachable_arrays)
next
  assume "reachable s"
  then show "attendance s \<noteq> NotArray" by (simp add: reachable_arrays)
next
  assume h: "medium s = Working \<and> users s \<noteq> NotArray \<and> attendance s \<noteq> NotArray
        \<and> find (\<lambda>u. user_id u = uid) (stored (users s)) = Some user
        \<and> toISODate now2 = toISODate now1 \<and> one_per_day (stored (attendance s))"
  then show "\<exists>e. snd (markAttendance s uid rid1 now1 now1') = Inr e
         \<and> markAttendance (fst (markAttendance s uid rid1 now1 now1')) uid rid2 now2 now2'
             = (fst (markAttendance s uid rid1 now1 now1'), Inr e)
         \<and> filter (\<lambda>r. userId r = uid \<and> date r = toISODate now1)
             (stored (attendance (fst (markAttendance s uid rid1 now1 now1')))) = [e]"
    using markAttendance_twice [of s uid user now2 now1 rid1 now1' rid2 now2'] by blast
qed

lemma reachable_example_storage: "reachable (example_storage [])"
proof -
  have "reachable (fst (registerUser \<lparr>users = Absent, attendance = Absent, medium = Working\<rparr>
          (''u1'', 0) (''u2'', 0)
          \<lparr>reg_name = ''Bob'', reg_email = ''bob@x.com'', reg_faceDescriptor = [1, 0, 0]\<rparr>))"
    by (rule reachable.register) (rule reachable.empty)
  then show ?thesis
    by (simp add: registerUser_on_empty example_storage_def example_user_def)
qed

theorem C1_one_event_per_user_and_day_witness:
  "reachable (example_storage [])
   \<and> one_per_day (stored (attendance (example_storage [])))
   \<and> medium (example_storage []) = Working
   \<and> users (example_storage []) \<noteq> NotArray \<and> attendance (example_storage []) \<noteq> NotArray
   \<and> find (\<lambda>u. user_id u = ''u1'') (stored (users (example_storage []))) = Some example_user
   \<and> toISODate 1704128400000 = toISODate 1704099600000
   \<and> (\<exists>e. snd (markAttendance (example_storage []) ''u1'' ''r1'' 1704099600000 1704099600001)
             = Inr e
         \<and> markAttendance
             (fst (markAttendance (example_storage []) ''u1'' ''r1'' 1704099600000 1704099600001))
             ''u1'' ''r2'' 1704128400000 1704128400001
             = (fst (markAttendance (example_storage []) ''u1'' ''r1'' 1704099600000
                      1704099600001), Inr e)
         \<and> filter (\<lambda>r. userId r = ''u1'' \<and> date r = toISODate 1704099600000)
             (stored (attendance (fst (markAttendance (example_storage []) ''u1'' ''r1''
                1704099600000 1704099600001)))) = [e])"
proof -
  have h: "medium (example_storage []) = Working
     \<and> users (example_storage []) \<noteq> NotArray \<and> attendance (example_storage []) \<noteq> NotArray
     \<and> find (\<lambda>u. user_id u = ''u1'') (stored (users (example_storage []))) = Some example_user
     \<and> toISODate 1704128400000 = toISODate 1704099600000
     \<and> one_per_day (stored (attendance (example_storage [])))"
    by (simp add: example_storage_def example_user_def toISODate_def one_per_day_def)
  show ?thesis
    using C1_one_event_per_user_and_day
      [of "example_storage []" "''u1''" example_user 1704128400000 1704099600000
          "''r1''" 1704099600001 "''r2''" 1704128400001]
      reachable_example_storage h
    by blast
qed

section \<open>Rounding to doubles\<close>

lemma double_ulp_pos: "0 < double_ulp x"
  by (simp add: double_ulp_def)

lemma round_half_even_less:
  assumes "x < of_int k - 1 / 2"
  shows "round_half_even x < k"
proof -
  have f: "of_int \<lfloor>x\<rfloor> \<le> x" by simp
  show ?thesis
  proof (cases "x - of_int \<lfloor>x\<rfloor> < 1 / 2")
    case True
    from f assms have "of_int \<lfloor>x\<rfloor> < (of_int k :: real)" by linarith
    then have "\<lfloor>x\<rfloor> < k" by simp
    with True show ?thesis by (simp add: round_half_even_def Let_def)
  next
    case False
    with assms have "of_int \<lfloor>x\<rfloor> + 1 < (of_int k :: real)" by linarith
    then have "of_int (\<lfloor>x\<rfloor> + 1) < (of_int k :: real)" by simp
    then have "\<lfloor>x\<rfloor> + 1 < k" by (simp only: of_int_less_iff)
    then show ?thesis by (simp add: round_half_even_def Let_def)
  qed
qed

lemma round_half_even_nonneg: "0 \<le> x \<Longrightarrow> 0 \<le> round_half_even x"
  by (simp add: round_half_even_def Let_def)

lemma to_double_nonneg: "0 \<le> x \<Longrightarrow> 0 \<le> to_double x"
  using double_ulp_pos [of x]
  by (simp add: to_double_def round_half_even_nonneg)

lemma double_ulp_below:
  fixes n :: nat
  assumes "0 < x" "x < real n" "1 \<le> n"
  shows "double_ulp x * 2 ^ 52 < real n"
proof -
  let ?e = "max (- 1022) \<lfloor>log 2 \<bar>x\<bar>\<rfloor>"
  have "2 powr of_int ?e < real n"
  proof (cases "- 1022 \<le> \<lfloor>log 2 \<bar>x\<bar>\<rfloor>")
    case True
    then have "?e = \<lfloor>log 2 \<bar>x\<bar>\<rfloor>" by simp
    moreover have "of_int \<lfloor>log 2 x\<rfloor> \<le> log 2 x" by simp
    then have "2 powr of_int \<lfloor>log 2 x\<rfloor> \<le> 2 powr log 2 x"
      by (rule powr_mono) simp
    moreover have "2 powr log 2 x = x" using assms(1) by simp
    ultimately show ?thesis using assms(1,2) by simp
  next
    case False
    then have e: "?e = - 1022" by simp
    have "(2::real) powr of_int (- 1022) \<le> 2 powr 0"
      by (rule powr_mono) simp_all
    then have "(2::real) powr of_int (- 1022) \<le> 1" by simp
    moreover have "2 powr of_int (- 1022) \<noteq> (1::real)"
      by (simp add: powr_minus)
    ultimately have "(2::real) powr of_int (- 1022) < 1" by linarith
    with e assms(3) show ?thesis by (simp del: of_int_minus of_int_numeral)
  qed
  moreover have "double_ulp x * 2 ^ 52 = 2 powr of_int ?e"
  proof -
    have "double_ulp x = 2 powr (of_int ?e - 52)"
      by (simp add: double_ulp_def)
    also have "\<dots> = 2 powr of_int ?e / 2 powr 52"
      by (rule powr_diff)
    finally show ?thesis by simp
  qed
  ultimately show ?thesis by simp
qed

lemma two_powr_nonpos: "k \<le> 0 \<Longrightarrow> (2::real) powr of_int k = 1 / 2 ^ nat (- k)"
  by (cases "k = 0") (simp_all add: powr_real_of_int inverse_eq_divide)

lemma double_ulp_inverse_power:
  fixes n :: nat
  assumes "0 < x" "x < real n" "1 \<le> n" "n < 2 ^ 53"
  shows "\<exists>j::nat. double_ulp x = 1 / 2 ^ j"
proof -
  let ?k = "max (- 1022) \<lfloor>log 2 \<bar>x\<bar>\<rfloor> - 52"
  have u: "double_ulp x = 2 powr of_int ?k" by (simp add: double_ulp_def)
  have "2 powr of_int ?k * 2 ^ 52 < real n"
    using double_ulp_below [OF assms(1-3)] u by simp
  moreover have "real n < 2 ^ 53" using assms(4) by (metis of_nat_less_numeral_power_cancel_iff)
  ultimately have "2 powr of_int ?k * 2 ^ 52 < (2::real) ^ 53" by linarith
  then have "2 powr of_int ?k < (2::real)" by simp
  then have "2 powr of_int ?k < (2::real) powr 1" by simp
  then have "of_int ?k < (1::real)" by (simp only: powr_less_cancel_iff) 
  then have k: "?k \<le> 0" by linarith
  have "2 powr of_int ?k = (1::real) / 2 ^ nat (- ?k)"
    using k by (rule two_powr_nonpos)
  with u show ?thesis by metis
qed

lemma to_double_below:
  fixes n :: nat
  assumes "1 \<le> n" "n < 2 ^ 53" "0 \<le> x" "x \<le> real n * (1 - 1 / 2 ^ 53)"
  shows "to_double x < real n"
proof (cases "x = 0")
  case True
  with assms(1) show ?thesis by (simp add: to_double_def)
next
  case False
  with assms(3) have x: "0 < x" by simp
  have "real n * (1 - 1 / 2 ^ 53) < real n" using assms(1) by simp
  with assms(4) have xn: "x < real n" by linarith
  from double_ulp_inverse_power [OF x xn assms(1,2)]
  obtain j :: nat where q: "double_ulp x = 1 / 2 ^ j" by blast
  let ?N = "int n * 2 ^ j"
  have big: "(2::real) ^ 52 < real n * 2 ^ j"
    using double_ulp_below [OF x xn assms(1)] q by (simp add: field_simps)
  have "x / double_ulp x = x * 2 ^ j" using q by simp
  also have "\<dots> \<le> real n * (1 - 1 / 2 ^ 53) * 2 ^ j"
    using assms(4) by (simp add: mult_right_mono)
  also have "\<dots> = real n * 2 ^ j - real n * 2 ^ j / 2 ^ 53"
    by (simp add: algebra_simps)
  also have "\<dots> < real n * 2 ^ j - 1 / 2"
    using big by simp
  finally have "x / double_ulp x < of_int ?N - 1 / 2" by simp
  then have "round_half_even (x / double_ulp x) < ?N"
    by (rule round_half_even_less)
  then have "round_half_even (x / double_ulp x) \<le> ?N - 1" by simp
  then have "(of_int (round_half_even (x / double_ulp x)) :: real) \<le> of_int (?N - 1)"
    by (simp only: of_int_le_iff)
  then have "of_int (round_half_even (x / double_ulp x)) * double_ulp x
      \<le> of_int (?N - 1) * double_ulp x"
    using double_ulp_pos [of x] by (simp only: mult_le_cancel_right_pos)
  also have "\<dots> = real n - double_ulp x"
    using q by (simp add: field_simps)
  also have "\<dots> < real n" using double_ulp_pos [of x] by simp
  finally show ?thesis using x by (simp add: to_double_def)
qed

lemma two_powr_nonneg: "0 \<le> k \<Longrightarrow> (2::real) powr of_int k = 2 ^ nat k"
  by (simp add: powr_real_of_int)

lemma is_double_below_one:
  assumes "is_double r" "r < 1"
  shows "r \<le> 1 - 1 / 2 ^ 53"
proof -
  from assms(1) obtain m e :: int
    where m: "\<bar>m\<bar> < 2 ^ 53" and r: "r = of_int m * 2 powr of_int e"
    unfolding is_double_def by blast
  show ?thesis
  proof (cases "- 53 \<le> e")
    case True
    then have "(2::real) powr of_int (e + 53) = 2 ^ nat (e + 53)"
      by (intro two_powr_nonneg) simp
    moreover have "(2::real) powr of_int (e + 53) = 2 powr of_int e * 2 ^ 53"
      by (simp add: powr_add)
    ultimately have "r * 2 ^ 53 = of_int (m * 2 ^ nat (e + 53))"
      using r by simp
    moreover have "r * 2 ^ 53 < 2 ^ 53" using assms(2) by simp
    ultimately have "(of_int (m * 2 ^ nat (e + 53)) :: real) < of_int (2 ^ 53)" by simp
    then have "m * 2 ^ nat (e + 53) < 2 ^ 53" by (simp only: of_int_less_iff)
    then have "m * 2 ^ nat (e + 53) \<le> 2 ^ 53 - 1" by simp
    then have "(of_int (m * 2 ^ nat (e + 53)) :: real) \<le> of_int (2 ^ 53 - 1)"
      by (simp only: of_int_le_iff)
    with \<open>r * 2 ^ 53 = of_int (m * 2 ^ nat (e + 53))\<close> have "r * 2 ^ 53 \<le> 2 ^ 53 - 1"
      by simp
    then show ?thesis by (simp add: field_simps)
  next
    case False
    then have "of_int e \<le> (- 54 :: real)" by simp
    then have "(2::real) powr of_int e \<le> 2 powr (- 54)"
      by (rule powr_mono) simp
    then have p: "(2::real) powr of_int e \<le> 1 / 2 ^ 54"
      by (simp add: powr_minus inverse_eq_divide)
    show ?thesis
    proof (cases "m \<le> 0")
      case True
      then have "r \<le> 0" using r by (simp add: mult_nonpos_nonneg)
      then show ?thesis by simp
    next
      case False
      then have m0: "0 \<le> (of_int m :: real)" by simp
      from m have "(of_int m :: real) \<le> 2 ^ 53" 
        by (metis abs_le_D1 less_imp_le of_int_le_numeral_power_cancel_iff)
      then have "r \<le> 2 ^ 53 * (1 / 2 ^ 54)"
        unfolding r using p m0 by (intro mult_mono) simp_all
      then show ?thesis by simp
    qed
  qed
qed

lemma random_index_in_range:
  fixes n :: nat
  assumes "is_double rnd" "0 \<le> rnd" "rnd < 1" "1 \<le> n" "n < 2 ^ 53"
  shows "0 \<le> \<lfloor>to_double (rnd * real n)\<rfloor>"
    and "\<lfloor>to_double (rnd * real n)\<rfloor> < int n"
proof -
  have le: "rnd \<le> 1 - 1 / 2 ^ 53" using assms(1,3) by (rule is_double_below_one)
  have x0: "0 \<le> rnd * real n" using assms(2) by simp
  have "real n * rnd \<le> real n * (1 - 1 / 2 ^ 53)"
    using le by (intro mult_left_mono) simp_all
  then have xn: "rnd * real n \<le> real n * (1 - 1 / 2 ^ 53)"
    by (simp only: mult.commute)
  from to_double_nonneg [OF x0] show "0 \<le> \<lfloor>to_double (rnd * real n)\<rfloor>" by simp
  from to_double_below [OF assms(4,5) x0 xn]
  show "\<lfloor>to_double (rnd * real n)\<rfloor> < int n" by (simp add: floor_less_iff)
qed

lemma to_double_0: "to_double 0 = 0"
  by (simp add: to_double_def)

lemma to_double_1: "to_double 1 = 1"
  by (simp add: to_double_def double_ulp_def round_half_even_def powr_minus)

lemma is_double_0: "is_double 0"
  unfolding is_double_def by (rule exI [of _ 0], rule exI [of _ 0]) simp

lemma is_double_half: "is_double (1 / 2)"
  unfolding is_double_def by (rule exI [of _ 1], rule exI [of _ "- 1"]) (simp add: powr_minus)

lemma double_ulp_between_2_and_4:
  assumes "2 \<le> x" "x < 4"
  shows "double_ulp x = 1 / 2 ^ 51"
proof -
  have "\<lfloor>log 2 x\<rfloor> = 1"
    using assms by (subst floor_log_eq_powr_iff) simp_all
  moreover have "\<bar>x\<bar> = x" using assms by simp
  ultimately show ?thesis
    by (simp add: double_ulp_def powr_minus inverse_eq_divide)
qed

lemma to_double_pos:
  "0 < x \<Longrightarrow> to_double x = of_int (round_half_even (x / double_ulp x)) * double_ulp x"
  by (simp add: to_double_def)

lemma to_double_tie_below_3:
  "to_double (1228254443828317 / 2 ^ 52 * 11) = 3"
proof -
  let ?x = "1228254443828317 / 2 ^ 52 * 11 :: real"
  have pos: "0 < ?x" by simp
  have u: "double_ulp ?x = 1 / 2 ^ 51"
    by (rule double_ulp_between_2_and_4) simp_all
  have d: "?x / (1 / 2 ^ 51) = 13510798882111487 / 2" by simp
  have r: "round_half_even (13510798882111487 / 2) = 6755399441055744"
    by (simp add: round_half_even_def Let_def)
  show ?thesis
    unfolding to_double_pos [OF pos] u d r by simp
qed

lemma is_double_draw: "is_double (1228254443828317 / 2 ^ 52)"
  unfolding is_double_def
  by (rule exI [of _ 1228254443828317], rule exI [of _ "- 52"])
     (simp add: powr_minus inverse_eq_divide)

section \<open>The matcher: what the mock returns\<close>

lemma mockFindBestMatch_nonempty:
  assumes "lds \<noteq> []" "length lds < 2 ^ 53" "is_double rnd" "0 \<le> rnd" "rnd < 1"
  shows "mockFindBestMatch rnd q lds =
    Inr \<lparr>label = ld_label (lds ! nat \<lfloor>to_double (rnd * real (length lds))\<rfloor>),
          distance = 3 / 10\<rparr>"
proof -
  from assms(1) have n: "1 \<le> length lds" by (cases lds) simp_all
  from random_index_in_range [OF assms(3-5) n assms(2)] assms(1) show ?thesis
    by (simp add: mockFindBestMatch_def Let_def)
qed

text \<open>
  The product is rounded as the source rounds it: for the draw \<open>1228254443828317 / 2 ^ 52\<close>
  and eleven candidates the exact product lies just below 3, half-way between two
  doubles, the double product is 3, and the candidate at index 3 is named.
\<close>

lemma mockFindBestMatch_rounded_product:
  assumes "length lds = 11"
  shows "mockFindBestMatch (1228254443828317 / 2 ^ 52) q lds
    = Inr \<lparr>label = ld_label (lds ! 3), distance = 3 / 10\<rparr>"
proof -
  have "nat \<lfloor>to_double (1228254443828317 / 2 ^ 52 * 11)\<rfloor> = 3"
    unfolding to_double_tie_below_3 by simp
  moreover have "\<lfloor>to_double (1228254443828317 / 2 ^ 52 * 11)\<rfloor> = 3"
    unfolding to_double_tie_below_3 by simp
  ultimately show ?thesis
    using assms by (simp only: mockFindBestMatch_def Let_def) simp
qed

lemma findBestMatch_nonempty:
  "labeledDescriptors this = first # others \<Longrightarrow>
     findBestMatch this q = \<lparr>label = ld_label first, distance = 3 / 10\<rparr>"
  by (simp add: findBestMatch_def)

lemma sqrt_hundredth: "sqrt (1 / 100) = 1 / 10"
  by (rule real_sqrt_unique) (simp_all add: power2_eq_square)

lemma distance_scenario_u1: "euclideanDistance [0, 0, 1 / 10] [0, 0, 0] = 1 / 10"
  by (simp add: euclideanDistance_def power2_eq_square sqrt_hundredth)

lemma distance_scenario_u2: "1 / 10 \<le> euclideanDistance [0, 0, 1 / 10] [10, 10, 10]"
  unfolding euclideanDistance_def by (rule real_le_rsqrt) (simp add: power2_eq_square)

lemma match_spec_scenario:
  "match_spec (6 / 10) [0, 0, 1 / 10] (candidates scenario_candidates)
     = \<lparr>label = ''u1'', distance = 1 / 10\<rparr>"
  using distance_scenario_u2
  by (simp add: match_spec_def candidates_def scenario_candidates_def distance_scenario_u1)

lemma match_spec_at_u2:
  "match_spec (6 / 10) [10, 10, 10] (candidates scenario_candidates)
     = \<lparr>label = ''u2'', distance = 0\<rparr>"
  by (simp add: match_spec_def candidates_def scenario_candidates_def euclideanDistance_def
      power2_eq_square)

text \<open>
  C2, as stated, fails: on the specification's own scenario (threshold 0.6, query
  (0, 0, 0.1)) the nearest candidate u1 is at Euclidean distance 0.1, and both mocks report
  the distance 0.3; for the query (10, 10, 10), which is u2's own embedding, the matcher
  class answers u1.
\<close>

theorem C2_counterexample:
  "findBestMatch \<lparr>labeledDescriptors = scenario_candidates, distanceThreshold = 6 / 10\<rparr>
       [0, 0, 1 / 10]
     \<noteq> match_spec (6 / 10) [0, 0, 1 / 10] (candidates scenario_candidates)
   \<and> mockFindBestMatch 0 [0, 0, 1 / 10] scenario_candidates
     \<noteq> Inr (match_spec (6 / 10) [0, 0, 1 / 10] (candidates scenario_candidates))
   \<and> label (findBestMatch
         \<lparr>labeledDescriptors = scenario_candidates, distanceThreshold = 6 / 10\<rparr> [10, 10, 10])
     \<noteq> label (match_spec (6 / 10) [10, 10, 10] (candidates scenario_candidates))"
  unfolding match_spec_scenario match_spec_at_u2
  by (simp add: findBestMatch_def mockFindBestMatch_def scenario_candidates_def to_double_0)

text \<open>
  C2, amended: for every query, every threshold and every non-empty candidate list the
  matcher computes no distance and reads no threshold. \<^verbatim>\<open>MockFaceMatcher.findBestMatch\<close>
  returns the label of the first candidate with the constant distance 0.3, and
  \<^verbatim>\<open>mockFindBestMatch\<close> likewise reports the constant distance 0.3 (for a JavaScript
  array and a draw of \<^verbatim>\<open>Math.random()\<close>, a double in [0, 1)).
\<close>

theorem C2_first_candidate_constant_distance:
  "(labeledDescriptors this = first # others \<longrightarrow>
      findBestMatch this q = \<lparr>label = ld_label first, distance = 3 / 10\<rparr>)
   \<and> (lds \<noteq> [] \<and> length lds < 2 ^ 32 \<and> is_double rnd \<and> 0 \<le> rnd \<and> rnd < 1 \<longrightarrow>
      (\<exists>r. mockFindBestMatch rnd q lds = Inr r \<and> distance r = 3 / 10))"
proof (intro conjI impI)
  assume "labeledDescriptors this = first # others"
  then show "findBestMatch this q = \<lparr>label = ld_label first, distance = 3 / 10\<rparr>"
    by (rule findBestMatch_nonempty)
next
  assume h: "lds \<noteq> [] \<and> length lds < 2 ^ 32 \<and> is_double rnd \<and> 0 \<le> rnd \<and> rnd < 1"
  then have "length lds < 2 ^ 53" by simp
  with h show "\<exists>r. mockFindBestMatch rnd q lds = Inr r \<and> distance r = 3 / 10"
    by (simp add: mockFindBestMatch_nonempty)
qed

theorem C2_first_candidate_constant_distance_witness:
  "labeledDescriptors \<lparr>labeledDescriptors = scenario_candidates, distanceThreshold = 6 / 10\<rparr>
     = \<lparr>ld_label = ''u1'', descriptors = [[0, 0, 0]]\<rparr>
         # [\<lparr>ld_label = ''u2'', descriptors = [[10, 10, 10]]\<rparr>]
   \<and> findBestMatch \<lparr>labeledDescriptors = scenario_candidates, distanceThreshold = 6 / 10\<rparr>
       [0, 0, 1 / 10]
     = \<lparr>label = ''u1'', distance = 3 / 10\<rparr>
   \<and> scenario_candidates \<noteq> [] \<and> length scenario_candidates < 2 ^ 32
   \<and> is_double (1 / 2) \<and> (0::real) \<le> 1 / 2 \<and> (1 / 2 :: real) < 1
   \<and> (\<exists>r. mockFindBestMatch (1 / 2) [0, 0, 1 / 10] scenario_candidates = Inr r
          \<and> distance r = 3 / 10)"
  using C2_first_candidate_constant_distance
    [of "\<lparr>labeledDescriptors = scenario_candidates, distanceThreshold = 6 / 10\<rparr>"
        "\<lparr>ld_label = ''u1'', descriptors = [[0, 0, 0]]\<rparr>"
        "[\<lparr>ld_label = ''u2'', descriptors = [[10, 10, 10]]\<rparr>]"
        "[0, 0, 1 / 10]" scenario_candidates "1 / 2"]
    is_double_half
  by (simp add: scenario_candidates_def)

text \<open>
  C4, the code at the failing input: with the same descriptor and the same two candidates,
  \<^verbatim>\<open>mockFindBestMatch\<close> answers u1 when \<^verbatim>\<open>Math.random()\<close> draws 0 and u2 when it draws
  0.5, although both candidates are reported at the same distance.
\<close>

theorem C4_mockFindBestMatch_depends_on_draw:
  "mockFindBestMatch 0 [0, 0, 1 / 10] scenario_candidates
     = Inr \<lparr>label = ''u1'', distance = 3 / 10\<rparr>
   \<and> mockFindBestMatch (1 / 2) [0, 0, 1 / 10] scenario_candidates
     = Inr \<lparr>label = ''u2'', distance = 3 / 10\<rparr>"
  by (simp add: mockFindBestMatch_def scenario_candidates_def to_double_0 to_double_1)

text \<open>
  C8: on the empty candidate list both matchers return the label \<^verbatim>\<open>"unknown"\<close> with
  distance exactly 1, whatever the query (and, for \<^verbatim>\<open>mockFindBestMatch\<close>, without drawing
  a random number); neither throws.
\<close>

theorem C8_empty_candidates_unknown:
  "mockFindBestMatch rnd e [] = Inr \<lparr>label = ''unknown'', distance = 1\<rparr>
   \<and> findBestMatch \<lparr>labeledDescriptors = [], distanceThreshold = thr\<rparr> e
       = \<lparr>label = ''unknown'', distance = 1\<rparr>"
  by (simp add: mockFindBestMatch_def findBestMatch_def)

text \<open>
  C10: for every non-empty candidate list (a JavaScript array, so shorter than
  \<open>2 ^ 32\<close>) and every draw of \<^verbatim>\<open>Math.random()\<close> (a double in [0, 1)), both matchers
  return distance exactly 0.3 and the label of one of the candidates; the result is the
  same for any other query, any other threshold and any other candidate list with the same
  labels in the same order, so it depends on no embedding value.
\<close>

theorem C10_constant_distance_some_label:
  assumes "lds \<noteq> []" and "length lds < 2 ^ 32"
    and "is_double rnd" and "0 \<le> rnd" and "rnd < 1"
    and "map ld_label lds' = map ld_label lds"
  shows "(\<exists>r. mockFindBestMatch rnd q lds = Inr r \<and> mockFindBestMatch rnd q' lds' = Inr r
            \<and> distance r = 3 / 10 \<and> label r \<in> set (map ld_label lds))
       \<and> (\<exists>r. findBestMatch \<lparr>labeledDescriptors = lds, distanceThreshold = thr\<rparr> q = r
            \<and> findBestMatch \<lparr>labeledDescriptors = lds', distanceThreshold = thr'\<rparr> q' = r
            \<and> distance r = 3 / 10 \<and> label r \<in> set (map ld_label lds))"
proof
  let ?i = "nat \<lfloor>to_double (rnd * real (length lds))\<rfloor>"
  from assms(6) have len: "length lds' = length lds"
    by (rule map_eq_imp_length_eq)
  with assms(1) have ne': "lds' \<noteq> []" by auto
  from assms(1) have n: "1 \<le> length lds" by (cases lds) simp_all
  from assms(2) have small: "length lds < 2 ^ 53" by simp
  from random_index_in_range [OF assms(3-5) n small] have i: "?i < length lds" by linarith
  have same: "ld_label (lds' ! ?i) = ld_label (lds ! ?i)"
    using i len assms(6) by (metis nth_map)
  have r1: "mockFindBestMatch rnd q lds = Inr \<lparr>label = ld_label (lds ! ?i), distance = 3 / 10\<rparr>"
    by (rule mockFindBestMatch_nonempty [OF assms(1) small assms(3-5)])
  have r2: "mockFindBestMatch rnd q' lds' = Inr \<lparr>label = ld_label (lds ! ?i), distance = 3 / 10\<rparr>"
    using mockFindBestMatch_nonempty [OF ne' _ assms(3-5), of q'] same len small by simp
  have mem: "ld_label (lds ! ?i) \<in> set (map ld_label lds)"
    using i by simp
  show "\<exists>r. mockFindBestMatch rnd q lds = Inr r \<and> mockFindBestMatch rnd q' lds' = Inr r
            \<and> distance r = 3 / 10 \<and> label r \<in> set (map ld_label lds)"
    using r1 r2 mem by simp
next
  from assms(1) obtain x xs where lds: "lds = x # xs" by (cases lds) auto
  with assms(6) obtain y ys where lds': "lds' = y # ys" and xy: "ld_label y = ld_label x"
    by (cases lds') auto
  show "\<exists>r. findBestMatch \<lparr>labeledDescriptors = lds, distanceThreshold = thr\<rparr> q = r
            \<and> findBestMatch \<lparr>labeledDescriptors = lds', distanceThreshold = thr'\<rparr> q' = r
            \<and> distance r = 3 / 10 \<and> label r \<in> set (map ld_label lds)"
    using lds lds' xy by (simp add: findBestMatch_def)
qed

theorem C10_constant_distance_some_label_witness:
  "scenario_candidates \<noteq> [] \<and> length scenario_candidates < 2 ^ 32
   \<and> is_double (1 / 2) \<and> (0::real) \<le> 1 / 2 \<and> (1 / 2 :: real) < 1
   \<and> map ld_label [\<lparr>ld_label = ''u1'', descriptors = [[5, 5, 5]]\<rparr>,
                     \<lparr>ld_label = ''u2'', descriptors = [[7, 7, 7]]\<rparr>]
       = map ld_label scenario_candidates
   \<and> (\<exists>r. mockFindBestMatch (1 / 2) [0, 0, 1 / 10] scenario_candidates = Inr r
        \<and> mockFindBestMatch (1 / 2) [7, 7, 7]
            [\<lparr>ld_label = ''u1'', descriptors = [[5, 5, 5]]\<rparr>,
             \<lparr>ld_label = ''u2'', descriptors = [[7, 7, 7]]\<rparr>] = Inr r
        \<and> distance r = 3 / 10 \<and> label r \<in> {''u1'', ''u2''})
   \<and> (\<exists>r. findBestMatch
            \<lparr>labeledDescriptors = scenario_candidates, distanceThreshold = 6 / 10\<rparr>
            [0, 0, 1 / 10] = r
        \<and> findBestMatch
            \<lparr>labeledDescriptors = [\<lparr>ld_label = ''u1'', descriptors = [[5, 5, 5]]\<rparr>,
                                     \<lparr>ld_label = ''u2'', descriptors = [[7, 7, 7]]\<rparr>],
               distanceThreshold = 1 / 100\<rparr> [7, 7, 7] = r
        \<and> distance r = 3 / 10 \<and> label r \<in> {''u1'', ''u2''})"
  using C10_constant_distance_some_label
    [of scenario_candidates "1 / 2"
        "[\<lparr>ld_label = ''u1'', descriptors = [[5, 5, 5]]\<rparr>,
          \<lparr>ld_label = ''u2'', descriptors = [[7, 7, 7]]\<rparr>]"
        "[0, 0, 1 / 10]" "[7, 7, 7]" "6 / 10" "1 / 100"]
    is_double_half
  by (simp add: scenario_candidates_def)

end
